theory Spec2Isabelle
  imports Main "HOL-Library.Word"
begin

unbundle bit_operations_syntax

section \<open>Errors, panics and the file system\<close>

text \<open>
  Both programs of the repository (the historical single-subnet runner, \<open>main.go\<close>, and
  the multi-subnet runner) are Go \<open>main\<close> packages that drive an external network
  library and the operating system. Go's \<open>error\<close> values are modelled by the datatype
  below; a run-time panic is a value of its own.
\<close>

type_synonym path = string

datatype error =
    PathError string path  \<comment> \<open>an error of package \<open>os\<close>: the operation and the path\<close>
  | NotRegular path        \<comment> \<open>\<open>fmt.Errorf("%s is not a regular file", src)\<close>\<close>
  | LibError string        \<comment> \<open>an error returned by the network library\<close>
  | JsonError string       \<comment> \<open>an error of \<open>encoding/json\<close>\<close>
  | DeadlineExceeded       \<comment> \<open>\<open>context.DeadlineExceeded\<close>\<close>
  | Canceled               \<comment> \<open>\<open>context.Canceled\<close>\<close>

datatype panic =
    SliceBounds            \<comment> \<open>slice bounds out of range\<close>
  | IndexOutOfRange        \<comment> \<open>index out of range\<close>
  | TypeAssertion string   \<comment> \<open>failed interface conversion \<open>x.(int)\<close>\<close>
  | MakeSlice              \<comment> \<open>\<open>makeslice: cap out of range\<close>\<close>

text \<open>
  A file-system entry: its type, its permission bits (the low nine bits of Go's
  \<open>os.FileMode\<close>, a \<open>uint32\<close>) and, for a regular file, its bytes.
\<close>

datatype kind = Regular | Directory | Special

record inode =
  kind :: kind
  perm :: "32 word"
  content :: "8 word list"

type_synonym fs = "path \<Rightarrow> inode option"

text \<open>
  A system call can fail for reasons the file-system map does not show (permissions of
  the calling user, a full disk, an I/O error). Those failures are an input of the
  model: \<open>os_faults\<close> says, per path, which calls fail. A missing path and a wrong file
  type are read from the map itself.
\<close>

record os_faults =
  stat_fails :: "path \<Rightarrow> bool"
  open_fails :: "path \<Rightarrow> bool"           \<comment> \<open>the file cannot be opened for reading\<close>
  create_fails :: "path \<Rightarrow> bool"
  copy_fails_after :: "path \<Rightarrow> nat option" \<comment> \<open>\<open>Some n\<close>: the transfer to this path fails after \<open>n\<close> bytes\<close>
  chmod_fails :: "path \<Rightarrow> bool"
  umask :: "32 word"

definition os_Stat :: "os_faults \<Rightarrow> fs \<Rightarrow> path \<Rightarrow> error + inode" where
  "os_Stat fl fs p =
     (case fs p of
        None \<Rightarrow> Inl (PathError ''stat'' p)
      | Some f \<Rightarrow> if stat_fails fl p then Inl (PathError ''stat'' p) else Inr f)"

definition IsRegular :: "inode \<Rightarrow> bool" where
  "IsRegular f = (kind f = Regular)"

text \<open>\<open>os.Open\<close> opens for reading; the handle is the path.\<close>

definition os_Open :: "os_faults \<Rightarrow> fs \<Rightarrow> path \<Rightarrow> error + path" where
  "os_Open fl fs p =
     (case fs p of
        None \<Rightarrow> Inl (PathError ''open'' p)
      | Some f \<Rightarrow> if open_fails fl p then Inl (PathError ''open'' p) else Inr p)"

text \<open>
  The directory a path lies in: the text before its last \<open>/\<close>, the root for a name
  directly under it and \<open>.\<close> for a name with no \<open>/\<close>.
\<close>

definition dirname :: "path \<Rightarrow> path" where
  "dirname p =
     (let d = rev (drop 1 (dropWhile (\<lambda>c. c \<noteq> CHR ''/'') (rev p)))
      in if d \<noteq> [] then d else if CHR ''/'' \<in> set p then ''/'' else ''.'')"

text \<open>
  \<open>os.Create\<close> is \<open>OpenFile(name, O_RDWR|O_CREATE|O_TRUNC, 0666)\<close>: a new file gets
  mode \<open>0666\<close> (\<open>0x1B6\<close>) less the umask, and it can only be made in a directory that
  exists; an existing file is emptied and keeps its mode; a directory cannot be opened
  for writing.
\<close>

definition os_Create :: "os_faults \<Rightarrow> fs \<Rightarrow> path \<Rightarrow> error + fs" where
  "os_Create fl fs p =
     (if create_fails fl p then Inl (PathError ''open'' p)
      else (case fs p of
        None \<Rightarrow>
          (case fs (dirname p) of
             None \<Rightarrow> Inl (PathError ''open'' p)
           | Some d \<Rightarrow>
               if kind d = Directory
               then Inr (fs(p \<mapsto> \<lparr>kind = Regular, perm = 0x1B6 AND NOT (umask fl), content = []\<rparr>))
               else Inl (PathError ''open'' p))
      | Some f \<Rightarrow>
          if kind f = Directory then Inl (PathError ''open'' p)
          else Inr (fs(p \<mapsto> f\<lparr>content := []\<rparr>))))"

text \<open>
  \<open>io.Copy(destination, source)\<close> reads the source to its end and writes what it read.
  The source is read after the destination was created, so a copy of a file onto
  itself reads the emptied file. The call returns the number of bytes written and the
  first error met.
\<close>

definition io_Copy :: "os_faults \<Rightarrow> fs \<Rightarrow> path \<Rightarrow> path \<Rightarrow> int \<times> error option \<times> fs" where
  "io_Copy fl fs dst src =
     (let data = (case fs src of None \<Rightarrow> [] | Some f \<Rightarrow> content f);
          written = (case copy_fails_after fl dst of None \<Rightarrow> data | Some n \<Rightarrow> take n data);
          err = (case copy_fails_after fl dst of None \<Rightarrow> None | Some n \<Rightarrow> Some (PathError ''write'' dst));
          fs' = (case fs dst of None \<Rightarrow> fs | Some f \<Rightarrow> fs(dst \<mapsto> f\<lparr>content := written\<rparr>))
      in (int (length written), err, fs'))"

definition os_Chmod :: "os_faults \<Rightarrow> fs \<Rightarrow> path \<Rightarrow> 32 word \<Rightarrow> error + fs" where
  "os_Chmod fl fs p m =
     (if chmod_fails fl p then Inl (PathError ''chmod'' p)
      else (case fs p of
        None \<Rightarrow> Inl (PathError ''chmod'' p)
      | Some f \<Rightarrow> Inr (fs(p \<mapsto> f\<lparr>perm := m\<rparr>))))"

section \<open>The plugin copy\<close>

text \<open>
  \<open>copy(src, dst)\<close> is the same function in both programs. It returns Go's pair
  \<open>(int64, error)\<close> and the file system it leaves. The two deferred \<open>Close\<close> calls
  change nothing the model shows. The mode \<open>0777\<close> is \<open>0x1FF\<close>.
\<close>

definition copy :: "os_faults \<Rightarrow> path \<Rightarrow> path \<Rightarrow> fs \<Rightarrow> (int \<times> error option) \<times> fs" where
  "copy fl src dst fs =
     (case os_Stat fl fs src of
        Inl err \<Rightarrow> ((0, Some err), fs)
      | Inr sourceFileStat \<Rightarrow>
          (if \<not> IsRegular sourceFileStat then ((0, Some (NotRegular src)), fs)
           else (case os_Open fl fs src of
              Inl err \<Rightarrow> ((0, Some err), fs)
            | Inr source \<Rightarrow>
                (case os_Create fl fs dst of
                   Inl err \<Rightarrow> ((0, Some err), fs)
                 | Inr fs1 \<Rightarrow>
                     (let (nBytes, err, fs2) = io_Copy fl fs1 dst source in
                        (case os_Chmod fl fs2 dst 0x1FF of
                           Inl err' \<Rightarrow> ((0, Some err'), fs2)
                         | Inr fs3 \<Rightarrow> ((nBytes, err), fs3)))))))"

section \<open>Formatting\<close>

text \<open>
  \<open>fmt.Sprintf\<close>'s verb \<open>%d\<close> on a value that is not negative: the decimal digits, no
  leading zero, \<open>0\<close> for zero.
\<close>

definition digit :: "nat \<Rightarrow> char" where
  "digit d = ''0123456789'' ! d"

function decimal :: "nat \<Rightarrow> string" where
  "decimal n = (if n < 10 then [digit n] else decimal (n div 10) @ [digit (n mod 10)])"
  by pat_completeness auto
termination
  by (relation "measure (\<lambda>n. n)") auto

declare decimal.simps [simp del]

section \<open>The network library, as the programs see it\<close>

text \<open>
  The network runner library and Go's \<open>context\<close> package are not part of the
  repository. The programs' calls into the library are answered by an oracle, the
  record \<open>lib\<close>: a theorem that holds for every oracle holds whatever the library
  answers. What a node exposes (\<open>GetDataDir\<close>, \<open>GetAPIPort\<close>, a \<open>uint16\<close>) is the
  record \<open>node\<close>; a chain identifier is the text its \<open>String\<close> method renders.

  A flag of a node's configuration is an \<open>interface{}\<close> value: a Go \<open>int\<close>, a string
  or something else. Go's \<open>int\<close> has 64 bits on the platforms the runner is built for;
  it is the type \<open>64 word\<close>, on which \<open>+\<close> and \<open>*\<close> wrap as Go's do, and \<open>sint\<close> reads
  the signed value.
\<close>

record node =
  dataDir :: path
  apiPort :: "16 word"

datatype flag_value = IntV "64 word" | StrV string | OtherV

record node_config =
  Flags :: "string \<Rightarrow> flag_value option"

record net_config =
  NodeConfigs :: "node_config list"
  NetFlags :: "string \<Rightarrow> flag_value option"

record SubnetSpec =
  Participants :: "string list"
  SubnetConfig :: "8 word list"

record BlockchainSpec =
  VMName :: string
  Genesis :: "8 word list"
  ChainConfig :: string
  SubnetSpec :: SubnetSpec

text \<open>
  Time is counted in nanoseconds, as Go's \<open>time.Duration\<close> is. A context is the
  background context or a child of a context with a deadline or with a cancel function;
  \<open>WithCancel p c\<close> is a child whose cancel function is called at time \<open>c\<close> (never, when
  \<open>c\<close> is \<open>None\<close>). \<open>ctx_done\<close> is the time at which the context's \<open>Done\<close> channel closes
  and the error \<open>Err\<close> then returns.
\<close>

datatype "context" = Background | WithDeadline "context" nat | WithCancel "context" "nat option"

fun ctx_done :: "context \<Rightarrow> (nat \<times> error) option" where
  "ctx_done Background = None"
| "ctx_done (WithDeadline p d) =
     (case ctx_done p of
        None \<Rightarrow> Some (d, DeadlineExceeded)
      | Some (t, e) \<Rightarrow> if t \<le> d then Some (t, e) else Some (d, DeadlineExceeded))"
| "ctx_done (WithCancel p c) =
     (case (ctx_done p, c) of
        (None, None) \<Rightarrow> None
      | (None, Some t') \<Rightarrow> Some (t', Canceled)
      | (Some (t, e), None) \<Rightarrow> Some (t, e)
      | (Some (t, e), Some t') \<Rightarrow> if t \<le> t' then Some (t, e) else Some (t', Canceled))"

text \<open>\<open>context.WithTimeout(parent, d)\<close> at time \<open>now\<close>.\<close>

definition WithTimeout :: "context \<Rightarrow> nat \<Rightarrow> nat \<Rightarrow> context" where
  "WithTimeout parent now d = WithDeadline parent (now + d)"

text \<open>
  What the cluster does during one health wait: it becomes healthy at a time, the
  health check fails with an error at a time, or neither ever happens.
\<close>

datatype health = HealthyAt nat | FailsAt nat error | NeverHealthy

text \<open>
  Modelled from the spec: the library's \<open>Healthy(ctx)\<close>, which is not in the
  repository. It "blocks until the underlying cluster reports every node as healthy, or
  until the timeout/cancellation fires first, whichever is sooner", and "returns success
  or a timeout/cancellation error". Beyond the spec's words the check may also fail with
  an error of the library's own (\<open>FailsAt\<close>), as on a network that was stopped. The
  result is the error and the time of the return; \<open>None\<close> is a call that never returns.
\<close>

definition Healthy :: "health \<Rightarrow> context \<Rightarrow> nat \<Rightarrow> (error option \<times> nat) option" where
  "Healthy h ctx now =
     (case ctx_done ctx of
        None \<Rightarrow>
          (case h of
             HealthyAt t \<Rightarrow> Some (None, max t now)
           | FailsAt t e \<Rightarrow> Some (Some e, max t now)
           | NeverHealthy \<Rightarrow> None)
      | Some (d, ce) \<Rightarrow>
          (case h of
             HealthyAt t \<Rightarrow> if max t now < d then Some (None, max t now) else Some (Some ce, max d now)
           | FailsAt t e \<Rightarrow> if max t now < d then Some (Some e, max t now) else Some (Some ce, max d now)
           | NeverHealthy \<Rightarrow> Some (Some ce, max d now)))"

text \<open>
  The oracle. Its fields \<open>nnodes_fails\<close>, \<open>default_node\<close> and \<open>default_flags\<close> answer
  \<open>NewDefaultConfigNNodes\<close>, and \<open>names_fail\<close> and \<open>node_name\<close> answer \<open>GetNodeNames\<close>; the
  two calls themselves follow the record.
\<close>

record lib =
  NewDefaultConfig :: "path \<Rightarrow> error + net_config"
  nnodes_fails :: "path \<Rightarrow> 32 word \<Rightarrow> error option"
  default_node :: "nat \<Rightarrow> node_config"      \<comment> \<open>the default configuration of the node at an index\<close>
  default_flags :: "string \<Rightarrow> flag_value option"
  NewNetwork :: "net_config \<Rightarrow> path \<Rightarrow> error option"
  GetNetworkID :: "error + 32 word"
  cluster :: "nat \<Rightarrow> health"        \<comment> \<open>the cluster during the first (0) and the second (1) health wait\<close>
  names_fail :: "error option"
  node_name :: "nat \<Rightarrow> string"             \<comment> \<open>the name of the node at an index\<close>
  GetNode :: "nat \<Rightarrow> string \<Rightarrow> error + node"  \<comment> \<open>in the plugin loop (0) and in the URL loop (1)\<close>
  CreateBlockchains :: "BlockchainSpec list \<Rightarrow> error + string list"
  Stop :: "nat \<Rightarrow> error option"       \<comment> \<open>the answer to the call after \<open>n\<close> earlier calls\<close>

text \<open>
  Modelled from the spec: the library's \<open>NewDefaultConfigNNodes\<close>, which is not in the
  repository. The bootstrapper "produces a default per-node configuration for the
  requested node count": a configuration for \<open>n\<close> nodes has \<open>n\<close> node configurations. What
  they hold, and whether the call fails, is the oracle's.
\<close>

definition NewDefaultConfigNNodes :: "lib \<Rightarrow> path \<Rightarrow> 32 word \<Rightarrow> error + net_config" where
  "NewDefaultConfigNNodes L binaryPath n =
     (case nnodes_fails L binaryPath n of
        Some err \<Rightarrow> Inl err
      | None \<Rightarrow> Inr \<lparr>NodeConfigs = map (default_node L) [0..<unat n], NetFlags = default_flags L\<rparr>)"

text \<open>
  Modelled from the spec: the library's \<open>GetNodeNames\<close>, which is not in the repository.
  The bootstrapper "starts the cluster, yielding a NetworkHandle plus the ordered list
  of NodeDescriptors", and \<open>listNodeNames(NetworkHandle)\<close> returns the ordered names: the
  network started from a configuration has one node for each node configuration. The
  network handle \<open>nw\<close> of the programs is the configuration the network was started
  from; what the nodes are called, and whether the call fails, is the oracle's.
\<close>

definition GetNodeNames :: "lib \<Rightarrow> net_config \<Rightarrow> error + string list" where
  "GetNodeNames L nw =
     (case names_fail L of
        Some err \<Rightarrow> Inl err
      | None \<Rightarrow> Inr (map (node_name L) [0..<length (NodeConfigs nw)]))"

section \<open>The state of a run\<close>

text \<open>
  The historical program keeps its run history in the global slice \<open>configs\<close> of
  \<open>NetworkConfig\<close> records and in a JSON file. The model does not spell out the JSON
  text: the file is absent (\<open>os.Stat\<close> returns an error), present but not readable
  (\<open>os.ReadFile\<close> fails, with the error given: the file cannot be opened, or reading
  it fails), present with text that \<open>json.Unmarshal\<close> refuses (with the error given), or
  it holds the records that \<open>json.Unmarshal\<close> decodes from it.
\<close>

record NetworkConfig =
  NetworkID :: "32 word"
  PortShifting :: "64 word"

datatype history_file = Absent | Unreadable error | Malformed error | Stored "NetworkConfig list"

datatype level = Info | Error | Fatal

datatype field = ErrorField error | StringField string string | SignalField

datatype entry = Log level string "field list"

record state =
  files :: fs
  history :: history_file
  configs :: "NetworkConfig list"          \<comment> \<open>the global variable \<open>configs\<close>\<close>
  launched :: "(net_config \<times> path) list"  \<comment> \<open>the arguments of every successful \<open>NewNetwork\<close>\<close>
  created :: "BlockchainSpec list list"    \<comment> \<open>the argument of every call of \<open>CreateBlockchains\<close>\<close>
  stops :: nat                             \<comment> \<open>how often \<open>Stop\<close> was called on the network\<close>
  now :: nat
  logs :: "entry list"
  stdout :: "error list"                   \<comment> \<open>what \<open>fmt.Println\<close> printed\<close>

definition initial :: "fs \<Rightarrow> history_file \<Rightarrow> nat \<Rightarrow> state" where
  "initial fs h t =
     \<lparr>files = fs, history = h, configs = [], launched = [], created = [], stops = 0, now = t,
      logs = [], stdout = []\<rparr>"

definition say :: "entry \<Rightarrow> state \<Rightarrow> state" where
  "say e st = st\<lparr>logs := logs st @ [e]\<rparr>"

text \<open>
  The phases of \<open>run\<close> after the bootstrap: the first health wait, the plugin copies,
  the creation of the blockchains, the second health wait, and the time the network
  runs. A value \<open>sig\<close> of type \<open>phase option\<close> says whether a SIGINT or SIGTERM comes at
  all, and during which phase.
\<close>

datatype phase = Health1 | Plugins | Creating | Health2 | Running

text \<open>
  How a call of \<open>run\<close> ends: it returns (an error or \<open>nil\<close>), it panics, or it blocks for
  ever. How the process ends: with an exit code, or never.
\<close>

datatype outcome = Returned "error option" | Panics panic | Blocked

datatype exit = Exit nat | Hang

datatype fault = Failed error | Panicked panic

datatype write_outcome = WriteOk | OpenFailed error | WriteFailed error

text \<open>Failures of calls into Go's standard library that are inputs of a run.\<close>

record std_faults =
  logger_fails :: "error option"    \<comment> \<open>\<open>logFactory.Make\<close>\<close>
  marshal_fails :: "error option"   \<comment> \<open>\<open>json.MarshalIndent\<close>\<close>
  write_file :: write_outcome       \<comment> \<open>\<open>os.WriteFile\<close> of the history file\<close>

text \<open>The command-line flags and the embedded genesis file.\<close>

record params =
  vmName :: string
  pluginID :: string
  genesis :: "8 word list"

definition healthyTimeout :: nat where
  "healthyTimeout = 2 * (60 * 1000000000)"

definition defaultShift :: "64 word" where
  "defaultShift = 10"

definition subnetSize :: int where
  "subnetSize = 3"

definition warp_config :: string where
  \<open>warp_config = ''{"warp-api-enabled": true}''\<close>

section \<open>Parts the two programs share\<close>

text \<open>
  \<open>nw.Stop\<close>, as both the deferred function and the historical signal handler call it:
  the call is counted, and an error it returns is only logged.
\<close>

definition call_Stop :: "lib \<Rightarrow> state \<Rightarrow> state" where
  "call_Stop L st =
     (case Stop L (stops st) of
        None \<Rightarrow> st\<lparr>stops := stops st + 1\<rparr>
      | Some err \<Rightarrow> say (Log Info ''error stopping network'' [ErrorField err]) (st\<lparr>stops := stops st + 1\<rparr>))"

text \<open>
  The function deferred in \<open>run\<close> right after \<open>NewNetwork\<close> succeeded: it runs when \<open>run\<close>
  returns or panics, and not when \<open>run\<close> never returns.
\<close>

definition deferred_Stop :: "lib \<Rightarrow> outcome \<times> state \<Rightarrow> outcome \<times> state" where
  "deferred_Stop L r =
     (case fst r of
        Blocked \<Rightarrow> r
      | Returned e \<Rightarrow> (Returned e, call_Stop L (snd r))
      | Panics p \<Rightarrow> (Panics p, call_Stop L (snd r)))"

text \<open>
  \<open>await(ctx, nw, log, timeout)\<close> of the multi-subnet program; \<open>k\<close> says which health wait
  of the run this is. \<open>None\<close> is a wait that never returns.
\<close>

definition multi_await :: "context \<Rightarrow> lib \<Rightarrow> nat \<Rightarrow> nat \<Rightarrow> state \<Rightarrow> (error option \<times> state) option" where
  "multi_await ctx L k timeout st =
     (let ctx' = WithTimeout ctx (now st) timeout;
          st1 = say (Log Info ''waiting for all nodes to report healthy...'' []) st
      in case Healthy (cluster L k) ctx' (now st) of
           None \<Rightarrow> None
         | Some (err, t) \<Rightarrow>
             (if err = None then Some (err, say (Log Info ''all nodes healthy...'' []) (st1\<lparr>now := t\<rparr>))
              else Some (err, st1\<lparr>now := t\<rparr>)))"

text \<open>
  \<open>await(nw, log, timeout)\<close> of the historical program: the same body, on
  \<open>context.Background()\<close>.
\<close>

definition hist_await :: "lib \<Rightarrow> nat \<Rightarrow> nat \<Rightarrow> state \<Rightarrow> (error option \<times> state) option" where
  "hist_await L k timeout st = multi_await Background L k timeout st"

text \<open>The loop that copies the plugin into every node's data directory (both programs).\<close>

fun plugin_loop :: "lib \<Rightarrow> os_faults \<Rightarrow> path \<Rightarrow> string \<Rightarrow> string list \<Rightarrow> fs \<Rightarrow> error option \<times> fs" where
  "plugin_loop L fl binaryPath plugin [] fs = (None, fs)"
| "plugin_loop L fl binaryPath plugin (name # rest) fs =
     (case GetNode L 0 name of
        Inl err \<Rightarrow> (Some err, fs)
      | Inr node \<Rightarrow>
          (case copy fl (binaryPath @ ''/plugins/'' @ plugin) (dataDir node @ ''/plugins/'' @ plugin) fs of
             ((n, Some err), fs') \<Rightarrow> (Some err, fs')
           | ((n, None), fs') \<Rightarrow> plugin_loop L fl binaryPath plugin rest fs'))"

text \<open>Go's slice expression \<open>xs[lo:hi]\<close> and index expression \<open>xs[k]\<close>, with their panics.\<close>

definition go_slice :: "'a list \<Rightarrow> int \<Rightarrow> int \<Rightarrow> panic + 'a list" where
  "go_slice xs lo hi =
     (if 0 \<le> lo \<and> lo \<le> hi \<and> hi \<le> int (length xs)
      then Inr (take (nat (hi - lo)) (drop (nat lo) xs))
      else Inl SliceBounds)"

definition go_index :: "'a list \<Rightarrow> int \<Rightarrow> panic + 'a" where
  "go_index xs k =
     (if 0 \<le> k \<and> k < int (length xs) then Inr (xs ! nat k) else Inl IndexOutOfRange)"

definition rpc_url :: "16 word \<Rightarrow> string \<Rightarrow> string" where
  "rpc_url port chain = ''http://127.0.0.1:'' @ decimal (unat port) @ ''/ext/bc/'' @ chain @ ''/rpc''"

text \<open>
  The loop that builds and logs the RPC URLs. The two programs differ in the chain they
  pick for node \<open>i\<close>: \<open>chains[0]\<close> (historical) and \<open>chains[i/subnetSize]\<close> (multi-subnet);
  \<open>pick\<close> is that choice. \<open>chs\<close> is the source's \<open>chains\<close>, \<open>i\<close> counts the nodes done and
  \<open>urls\<close> collects the URLs, which the programs use for the log line only. Each URL is
  logged as soon as it is built, so the lines of the nodes already done stay in the log
  when a later \<open>GetNode\<close> fails or the index panics.
\<close>

fun rpc_loop :: "lib \<Rightarrow> (int \<Rightarrow> int) \<Rightarrow> string list \<Rightarrow> int \<Rightarrow> string list \<Rightarrow> string list \<Rightarrow> state
    \<Rightarrow> fault option \<times> string list \<times> state" where
  "rpc_loop L pick chs i [] urls st = (None, urls, st)"
| "rpc_loop L pick chs i (name # rest) urls st =
     (case GetNode L 1 name of
        Inl err \<Rightarrow> (Some (Failed err), urls, st)
      | Inr node \<Rightarrow>
          (case go_index chs (pick i) of
             Inl p \<Rightarrow> (Some (Panicked p), urls, st)
           | Inr chain \<Rightarrow>
               rpc_loop L pick chs (i + 1) rest
                 (urls @ [rpc_url (apiPort node) chain])
                 (say (Log Info ''subnet rpc url''
                         [StringField ''node'' name, StringField ''url'' (rpc_url (apiPort node) chain)]) st)))"

section \<open>The multi-subnet program\<close>

text \<open>
  Go's \<open>int\<close> is modelled by \<open>int\<close>. The count of nodes asked of the library is
  \<open>uint32(subnetSize*amountOfSubnets)\<close>: the conversion keeps the low 32 bits, which
  \<open>word_of_int\<close> does (a product that wraps in 64 bits first has the same low 32 bits).
\<close>

definition requested_nodes :: "int \<Rightarrow> 32 word" where
  "requested_nodes amountOfSubnets = word_of_int (subnetSize * amountOfSubnets)"

definition mk_spec :: "params \<Rightarrow> string list \<Rightarrow> BlockchainSpec" where
  "mk_spec P ps =
     \<lparr>VMName = vmName P, Genesis = genesis P, ChainConfig = warp_config,
      SubnetSpec = \<lparr>Participants = ps, SubnetConfig = []\<rparr>\<rparr>"

text \<open>
  The loop \<open>for i := 0; i < amountOfSubnets; i++\<close> that cuts the node names into the
  subnets' participants. \<open>sz\<close> stands for the constant \<open>subnetSize\<close>, which
  \<open>partition_subnets\<close> passes. The index stays far below the range of Go's \<open>int\<close>: the
  slice expression panics as soon as \<open>(i+1)*sz\<close> exceeds the number of names.
\<close>

function specs_loop :: "int \<Rightarrow> params \<Rightarrow> string list \<Rightarrow> int \<Rightarrow> int \<Rightarrow> BlockchainSpec list
    \<Rightarrow> panic + BlockchainSpec list" where
  "specs_loop sz P nodeNames amountOfSubnets i acc =
     (if i < amountOfSubnets
      then (case go_slice nodeNames (i * sz) ((i + 1) * sz) of
              Inl p \<Rightarrow> Inl p
            | Inr ps \<Rightarrow> specs_loop sz P nodeNames amountOfSubnets (i + 1) (acc @ [mk_spec P ps]))
      else Inr acc)"
  by pat_completeness auto
termination
  by (relation "measure (\<lambda>(sz, P, nodeNames, amountOfSubnets, i, acc). nat (amountOfSubnets - i))") auto

declare specs_loop.simps [simp del]

text \<open>
  \<open>make([]network.BlockchainSpec, 0, amountOfSubnets)\<close> panics on a negative capacity;
  then the loop runs. A capacity beyond what the memory holds ends the process too;
  the model leaves that out.
\<close>

definition partition_subnets :: "params \<Rightarrow> string list \<Rightarrow> int \<Rightarrow> panic + BlockchainSpec list" where
  "partition_subnets P nodeNames amountOfSubnets =
     (if amountOfSubnets < 0 then Inl MakeSlice
      else specs_loop subnetSize P nodeNames amountOfSubnets 0 [])"

text \<open>
  \<open>shutdownOnSignal(log, shutdownSignal)\<close>, called last in \<open>run\<close>: it blocks until a
  signal is in the channel. The channel holds one signal and is registered when \<open>run\<close>
  starts, so a signal that came at any earlier moment of the run is read here.
\<close>

definition multi_shutdownOnSignal :: "phase option \<Rightarrow> state \<Rightarrow> outcome \<times> state" where
  "multi_shutdownOnSignal sig st =
     (case sig of
        None \<Rightarrow> (Blocked, st)
      | Some p \<Rightarrow> (Returned None, say (Log Info ''got OS signal'' [SignalField]) st))"

text \<open>
  \<open>run\<close> from the first health wait on: what the deferred \<open>Stop\<close> encloses. \<open>nw\<close> is the
  network. The index \<open>i\<close> of the URL loop is never negative, so Go's truncating
  \<open>i/subnetSize\<close> is \<open>i div subnetSize\<close>.
\<close>

definition multi_provision :: "context \<Rightarrow> lib \<Rightarrow> os_faults \<Rightarrow> phase option \<Rightarrow> params \<Rightarrow> int \<Rightarrow> path
    \<Rightarrow> net_config \<Rightarrow> state \<Rightarrow> outcome \<times> state" where
  "multi_provision ctx L fl sig P amountOfSubnets binaryPath nw st =
     (case multi_await ctx L 0 healthyTimeout st of
        None \<Rightarrow> (Blocked, st)
      | Some (Some err, st1) \<Rightarrow> (Returned (Some err), st1)
      | Some (None, st1) \<Rightarrow>
          (case GetNodeNames L nw of
             Inl err \<Rightarrow> (Returned (Some err), st1)
           | Inr nodeNames \<Rightarrow>
               (case plugin_loop L fl binaryPath (pluginID P) nodeNames (files st1) of
                  (Some err, fs') \<Rightarrow> (Returned (Some err), st1\<lparr>files := fs'\<rparr>)
                | (None, fs') \<Rightarrow>
                    (case partition_subnets P nodeNames amountOfSubnets of
                       Inl p \<Rightarrow> (Panics p, st1\<lparr>files := fs'\<rparr>)
                     | Inr specs \<Rightarrow>
                         (let st2 = st1\<lparr>files := fs', created := created st1 @ [specs]\<rparr> in
                          case CreateBlockchains L specs of
                            Inl err \<Rightarrow> (Returned (Some err), st2)
                          | Inr chs \<Rightarrow>
                              (case multi_await ctx L 1 healthyTimeout st2 of
                                 None \<Rightarrow> (Blocked, st2)
                               | Some (Some err, st3) \<Rightarrow> (Returned (Some err), st3)
                               | Some (None, st3) \<Rightarrow>
                                   (case rpc_loop L (\<lambda>i. i div subnetSize) chs 0 nodeNames [] st3 of
                                      (Some (Failed err), rpcUrls, st4) \<Rightarrow> (Returned (Some err), st4)
                                    | (Some (Panicked p), rpcUrls, st4) \<Rightarrow> (Panics p, st4)
                                    | (None, rpcUrls, st4) \<Rightarrow>
                                        multi_shutdownOnSignal sig
                                          (say (Log Info ''Network will run until you CTRL + C to exit...'' [])
                                             st4))))))))"

definition multi_run :: "context \<Rightarrow> lib \<Rightarrow> os_faults \<Rightarrow> phase option \<Rightarrow> params \<Rightarrow> int \<Rightarrow> path \<Rightarrow> path
    \<Rightarrow> state \<Rightarrow> outcome \<times> state" where
  "multi_run ctx L fl sig P amountOfSubnets binaryPath workDir st =
     (case NewDefaultConfigNNodes L (binaryPath @ ''/avalanchego'') (requested_nodes amountOfSubnets) of
        Inl err \<Rightarrow> (Returned (Some err), st)
      | Inr nwConfig \<Rightarrow>
          (let nwConfig' = nwConfig\<lparr>NetFlags := (NetFlags nwConfig)(''log-level'' \<mapsto> StrV ''INFO'')\<rparr>
           in case NewNetwork L nwConfig' workDir of
                Some err \<Rightarrow> (Returned (Some err), st)
              | None \<Rightarrow>
                  deferred_Stop L
                    (multi_provision ctx L fl sig P amountOfSubnets binaryPath nwConfig'
                       (st\<lparr>launched := launched st @ [(nwConfig', workDir)]\<rparr>))))"

text \<open>
  How \<open>main\<close> ends after \<open>run\<close>: an error is logged at level fatal and the process exits
  with 1; a panic ends a Go process with 2.
\<close>

definition finish :: "outcome \<times> state \<Rightarrow> exit \<times> state" where
  "finish r =
     (case fst r of
        Returned None \<Rightarrow> (Exit 0, snd r)
      | Returned (Some err) \<Rightarrow> (Exit 1, say (Log Fatal ''fatal error'' [ErrorField err]) (snd r))
      | Panics p \<Rightarrow> (Exit 2, snd r)
      | Blocked \<Rightarrow> (Hang, snd r))"

text \<open>
  \<open>main\<close> of the multi-subnet program. \<open>home\<close> is the environment variable, \<open>unixTime\<close> is
  \<open>time.Now().Unix()\<close>; \<open>fs\<close>, \<open>h\<close> and \<open>t\<close> are the host's files, its history file and the
  time when the process starts. The working directory that \<open>main\<close> empties and creates
  is the library's to fill and is not part of \<open>files\<close>.
\<close>

definition multi_main :: "lib \<Rightarrow> os_faults \<Rightarrow> std_faults \<Rightarrow> phase option \<Rightarrow> params \<Rightarrow> int \<Rightarrow> string \<Rightarrow> nat
    \<Rightarrow> fs \<Rightarrow> history_file \<Rightarrow> nat \<Rightarrow> exit \<times> state" where
  "multi_main L fl sf sig P amountOfSubnets home unixTime fs h t =
     (let ctx = Background; st = initial fs h t in
      case logger_fails sf of
        Some err \<Rightarrow> (Exit 1, st\<lparr>stdout := stdout st @ [err]\<rparr>)
      | None \<Rightarrow>
          (let binaryPath = home @ ''/universal-subnet-runner/avalanchego'';
               workDir = home @ ''/universal-subnet-runner/networks/'' @ decimal unixTime @ ''/nodes''
           in finish (multi_run ctx L fl sig P amountOfSubnets binaryPath workDir st)))"

section \<open>The historical program\<close>

text \<open>
  The loop over \<open>nwConfig.NodeConfigs\<close> that adds the shift to the two ports of every
  node. \<open>Flags["http-port"].(int)\<close> panics when the flag is missing or is not an \<open>int\<close>.
  The sums are Go's: they wrap at 64 bits.
\<close>

definition shift_node :: "64 word \<Rightarrow> node_config \<Rightarrow> panic + node_config" where
  "shift_node shift nc =
     (case Flags nc ''http-port'' of
        Some (IntV h) \<Rightarrow>
          (case ((Flags nc)(''http-port'' \<mapsto> IntV (h + shift))) ''staking-port'' of
             Some (IntV sp) \<Rightarrow>
               Inr (nc\<lparr>Flags := (Flags nc)(''http-port'' \<mapsto> IntV (h + shift),
                                           ''staking-port'' \<mapsto> IntV (sp + shift))\<rparr>)
           | _ \<Rightarrow> Inl (TypeAssertion ''staking-port''))
      | _ \<Rightarrow> Inl (TypeAssertion ''http-port''))"

fun shift_ports :: "64 word \<Rightarrow> node_config list \<Rightarrow> panic + node_config list" where
  "shift_ports shift [] = Inr []"
| "shift_ports shift (nc # rest) =
     (case shift_node shift nc of
        Inl p \<Rightarrow> Inl p
      | Inr nc' \<Rightarrow> (case shift_ports shift rest of Inl p \<Rightarrow> Inl p | Inr rest' \<Rightarrow> Inr (nc' # rest')))"

text \<open>
  \<open>shutdownOnSignal(log, n, signalChan, closedOnShutdownChan)\<close>, which \<open>run\<close> starts as a
  goroutine: when the signal comes it logs it, calls \<open>n.Stop\<close> and closes both channels.
  \<open>deliver sig p\<close> takes these steps at the start of phase \<open>p\<close> of \<open>run\<close> when that is the
  phase during which the signal \<open>sig\<close> comes. A signal that comes before the goroutine
  is started is not modelled. The library's configuration carries a flag map that is
  not \<open>nil\<close>, so the assignment of \<open>log-level\<close> in \<open>run\<close> does not panic.
\<close>

definition hist_shutdownOnSignal :: "lib \<Rightarrow> state \<Rightarrow> state" where
  "hist_shutdownOnSignal L st = call_Stop L (say (Log Info ''got OS signal'' [SignalField]) st)"

definition deliver :: "phase option \<Rightarrow> phase \<Rightarrow> lib \<Rightarrow> state \<Rightarrow> state" where
  "deliver sig p L st = (if sig = Some p then hist_shutdownOnSignal L st else st)"

text \<open>
  Lines 182 to 203 of \<open>run\<close>: ask the network's ID, append the record to \<open>configs\<close>,
  encode the slice and write the history file. A write that fails after the file was
  opened leaves a truncated file, which \<open>json.Unmarshal\<close> refuses with
  \<open>unexpected end of JSON input\<close>.
\<close>

definition hist_record :: "lib \<Rightarrow> std_faults \<Rightarrow> 64 word \<Rightarrow> state \<Rightarrow> error option \<times> state" where
  "hist_record L sf shift st =
     (case GetNetworkID L of
        Inl err \<Rightarrow> (Some err, st)
      | Inr networkID \<Rightarrow>
          (let networkConfig = \<lparr>NetworkID = networkID, PortShifting = shift\<rparr>;
               st1 = st\<lparr>configs := configs st @ [networkConfig]\<rparr>
           in case marshal_fails sf of
                Some err \<Rightarrow> (Some err, say (Log Error ''Error marshalling JSON:'' [ErrorField err]) st1)
              | None \<Rightarrow>
                  (case write_file sf of
                     WriteOk \<Rightarrow> (None, st1\<lparr>history := Stored (configs st1)\<rparr>)
                   | OpenFailed err \<Rightarrow>
                       (Some err, say (Log Error ''Error writing to file:'' [ErrorField err]) st1)
                   | WriteFailed err \<Rightarrow>
                       (Some err, say (Log Error ''Error writing to file:'' [ErrorField err])
                                    (st1\<lparr>history := Malformed (JsonError ''unexpected end of JSON input'')\<rparr>)))))"

text \<open>
  Lines 205 to 271 of \<open>run\<close>: the goroutine is started, then the phases follow. The
  single blockchain has every node as participant and every URL names \<open>chains[0]\<close>. At
  the end \<open>run\<close> waits for the goroutine to close \<open>closedOnShutdownCh\<close>: for ever, when no
  signal comes.
\<close>

definition hist_provision :: "lib \<Rightarrow> os_faults \<Rightarrow> phase option \<Rightarrow> params \<Rightarrow> path \<Rightarrow> net_config \<Rightarrow> state
    \<Rightarrow> outcome \<times> state" where
  "hist_provision L fl sig P binaryPath nw st =
     (case hist_await L 0 healthyTimeout (deliver sig Health1 L st) of
        None \<Rightarrow> (Blocked, deliver sig Health1 L st)
      | Some (Some err, st1) \<Rightarrow> (Returned (Some err), st1)
      | Some (None, st1) \<Rightarrow>
          (case GetNodeNames L nw of
             Inl err \<Rightarrow> (Returned (Some err), st1)
           | Inr nodeNames \<Rightarrow>
               (let st2 = deliver sig Plugins L st1 in
                case plugin_loop L fl binaryPath (pluginID P) nodeNames (files st2) of
                  (Some err, fs') \<Rightarrow> (Returned (Some err), st2\<lparr>files := fs'\<rparr>)
                | (None, fs') \<Rightarrow>
                    (let st3 = deliver sig Creating L
                                 (st2\<lparr>files := fs', created := created st2 @ [[mk_spec P nodeNames]]\<rparr>) in
                     case CreateBlockchains L [mk_spec P nodeNames] of
                       Inl err \<Rightarrow> (Returned (Some err), st3)
                     | Inr chs \<Rightarrow>
                         (case hist_await L 1 healthyTimeout (deliver sig Health2 L st3) of
                            None \<Rightarrow> (Blocked, deliver sig Health2 L st3)
                          | Some (Some err, st4) \<Rightarrow> (Returned (Some err), st4)
                          | Some (None, st4) \<Rightarrow>
                              (case rpc_loop L (\<lambda>i. 0) chs 0 nodeNames [] st4 of
                                 (Some (Failed err), rpcUrls, st5) \<Rightarrow> (Returned (Some err), st5)
                               | (Some (Panicked p), rpcUrls, st5) \<Rightarrow> (Panics p, st5)
                               | (None, rpcUrls, st5) \<Rightarrow>
                                   (let st6 = deliver sig Running L
                                        (say (Log Info ''Network will run until you CTRL + C to exit...'' []) st5)
                                    in if sig = None then (Blocked, st6) else (Returned None, st6))))))))"

text \<open>
  \<open>run\<close> of the historical program. The history file at \<open>configFilePath\<close> is the field
  \<open>history\<close> of the state. \<open>len(configs)\<close> is a Go \<open>int\<close> that is not negative, and the
  product \<open>defaultShift * len(configs)\<close> is Go's, in 64 bits.
\<close>

definition hist_run :: "lib \<Rightarrow> os_faults \<Rightarrow> std_faults \<Rightarrow> phase option \<Rightarrow> params \<Rightarrow> path \<Rightarrow> path
    \<Rightarrow> path \<Rightarrow> state \<Rightarrow> outcome \<times> state" where
  "hist_run L fl sf sig P configFilePath binaryPath workDir st =
     (case NewDefaultConfig L (binaryPath @ ''/avalanchego'') of
        Inl err \<Rightarrow> (Returned (Some err), st)
      | Inr nwConfig \<Rightarrow>
          (let shift = defaultShift * word_of_nat (length (configs st)) in
           case shift_ports shift (NodeConfigs nwConfig) of
             Inl p \<Rightarrow> (Panics p, st)
           | Inr shifted \<Rightarrow>
               (let nwConfig' = \<lparr>NodeConfigs = shifted,
                                 NetFlags = (NetFlags nwConfig)(''log-level'' \<mapsto> StrV ''INFO'')\<rparr>
                in case NewNetwork L nwConfig' workDir of
                     Some err \<Rightarrow> (Returned (Some err), st)
                   | None \<Rightarrow>
                       deferred_Stop L
                         (case hist_record L sf shift (st\<lparr>launched := launched st @ [(nwConfig', workDir)]\<rparr>) of
                            (Some err, st1) \<Rightarrow> (Returned (Some err), st1)
                          | (None, st1) \<Rightarrow> hist_provision L fl sig P binaryPath nwConfig' st1))))"

text \<open>
  \<open>main\<close> of the historical program. After a failed \<open>ReadFile\<close> or \<open>Unmarshal\<close> it logs
  the error and returns from \<open>main\<close>, which ends a Go process with exit code 0.
\<close>

definition hist_main :: "lib \<Rightarrow> os_faults \<Rightarrow> std_faults \<Rightarrow> phase option \<Rightarrow> params \<Rightarrow> string \<Rightarrow> nat
    \<Rightarrow> fs \<Rightarrow> history_file \<Rightarrow> nat \<Rightarrow> exit \<times> state" where
  "hist_main L fl sf sig P home unixTime fs h t =
     (let st = initial fs h t in
      case logger_fails sf of
        Some err \<Rightarrow> (Exit 1, st\<lparr>stdout := stdout st @ [err]\<rparr>)
      | None \<Rightarrow>
          (let configFilePath = home @ ''/universal-subnet-runner/config.json'';
               binaryPath = home @ ''/universal-subnet-runner/avalanchego'';
               workDir = home @ ''/universal-subnet-runner/networks/'' @ decimal unixTime @ ''/nodes''
           in case history st of
                Absent \<Rightarrow> finish (hist_run L fl sf sig P configFilePath binaryPath workDir st)
              | Unreadable err \<Rightarrow>
                  (Exit 0, say (Log Error ''Error reading file:'' [ErrorField err]) st)
              | Malformed err \<Rightarrow>
                  (Exit 0, say (Log Error ''Error unmarshalling JSON:'' [ErrorField err]) st)
              | Stored cs \<Rightarrow>
                  finish (hist_run L fl sf sig P configFilePath binaryPath workDir (st\<lparr>configs := cs\<rparr>))))"

section \<open>Example inputs\<close>

text \<open>
  A host on which nothing fails, with the plugin file and the plugin directory of every
  node's data directory, the nodes of a small network and a library that answers every
  call with success. The theorems below are applied to them.
\<close>

definition no_faults :: os_faults where
  "no_faults = \<lparr>stat_fails = (\<lambda>p. False), open_fails = (\<lambda>p. False), create_fails = (\<lambda>p. False),
     copy_fails_after = (\<lambda>p. None), chmod_fails = (\<lambda>p. False), umask = 0x12\<rparr>"

definition no_std_faults :: std_faults where
  "no_std_faults = \<lparr>logger_fails = None, marshal_fails = None, write_file = WriteOk\<rparr>"

definition plugin_file :: inode where
  "plugin_file = \<lparr>kind = Regular, perm = 0x1A4, content = [1, 2, 3]\<rparr>"

definition directory :: inode where
  "directory = \<lparr>kind = Directory, perm = 0x1ED, content = []\<rparr>"

definition demo_ports :: "(string \<times> 16 word) list" where
  "demo_ports = [(''node1'', 9650), (''node2'', 9652), (''node3'', 9654), (''node4'', 9656), (''node5'', 9658),
     (''node6'', 9660), (''node7'', 9662), (''node8'', 9664), (''node9'', 9666)]"

definition demo_fs :: fs where
  "demo_fs = map_of
     ((''/h/universal-subnet-runner/avalanchego/plugins/vm'', plugin_file) #
      (''/w'', directory) #
      map (\<lambda>(name, port). (''/w/'' @ name @ ''/plugins'', directory)) demo_ports)"

definition demo_node_config :: "64 word \<Rightarrow> node_config" where
  "demo_node_config p = \<lparr>Flags = [''http-port'' \<mapsto> IntV p, ''staking-port'' \<mapsto> IntV (p + 1)]\<rparr>"

definition demo_lib :: lib where
  "demo_lib =
     \<lparr>NewDefaultConfig = (\<lambda>p. Inr \<lparr>NodeConfigs = [demo_node_config 9650, demo_node_config 9652],
                                      NetFlags = Map.empty\<rparr>),
      nnodes_fails = (\<lambda>p n. None),
      default_node = (\<lambda>i. demo_node_config (9650 + 2 * word_of_nat i)),
      default_flags = Map.empty,
      NewNetwork = (\<lambda>c w. None),
      GetNetworkID = Inr 1337,
      cluster = (\<lambda>k. HealthyAt 5000000000),
      names_fail = None,
      node_name = (\<lambda>i. fst (demo_ports ! i)),
      GetNode = (\<lambda>k name. case map_of demo_ports name of
                   None \<Rightarrow> Inl (LibError ''node not found'')
                 | Some p \<Rightarrow> Inr \<lparr>dataDir = ''/w/'' @ name, apiPort = p\<rparr>),
      CreateBlockchains = (\<lambda>specs. Inr (map (\<lambda>s. ''chain-of-'' @ hd (Participants (SubnetSpec s))) specs)),
      Stop = (\<lambda>k. if k = 0 then None else Some (LibError ''network stopped''))\<rparr>"

definition nine_nodes :: "string list" where
  "nine_nodes = [''node1'', ''node2'', ''node3'', ''node4'', ''node5'', ''node6'', ''node7'', ''node8'', ''node9'']"

definition demo_params :: params where
  "demo_params = \<lparr>vmName = ''subnetevm'', pluginID = ''vm'', genesis = []\<rparr>"

definition failing_transfer :: os_faults where
  "failing_transfer = no_faults\<lparr>copy_fails_after := (\<lambda>p. Some 2)\<rparr>"

definition demo_config :: net_config where
  "demo_config = \<lparr>NodeConfigs = [demo_node_config 9650, demo_node_config 9652], NetFlags = Map.empty\<rparr>"

definition two_records :: "NetworkConfig list" where
  "two_records = [\<lparr>NetworkID = 1337, PortShifting = 0\<rparr>, \<lparr>NetworkID = 1337, PortShifting = 10\<rparr>]"

text \<open>A cluster that never reports healthy, and one whose health check fails once it was stopped.\<close>

definition never_healthy :: lib where
  "never_healthy = demo_lib\<lparr>cluster := (\<lambda>k. NeverHealthy)\<rparr>"

definition stopped_while_waiting :: lib where
  "stopped_while_waiting = demo_lib\<lparr>cluster := (\<lambda>k. FailsAt 1000 (LibError ''network stopped''))\<rparr>"

text \<open>A history file that cannot be opened for writing.\<close>

definition read_only_history :: std_faults where
  "read_only_history = no_std_faults\<lparr>write_file := OpenFailed (PathError ''open'' ''/h/universal-subnet-runner/config.json'')\<rparr>"

text \<open>
  A destination that exists and belongs to another user (it can be written, but its mode
  cannot be changed), and a plugin file that cannot be opened for reading.
\<close>

definition old_plugin :: inode where
  "old_plugin = \<lparr>kind = Regular, perm = 0x1B6, content = [9]\<rparr>"

definition foreign_destination :: os_faults where
  "foreign_destination = no_faults\<lparr>chmod_fails := (\<lambda>p. p = ''/w/node1/plugins/vm'')\<rparr>"

definition unreadable_plugin :: os_faults where
  "unreadable_plugin = no_faults\<lparr>open_fails := (\<lambda>p. p = ''/h/universal-subnet-runner/avalanchego/plugins/vm'')\<rparr>"

text \<open>A history file that exists and cannot be opened, and a network that was stopped before its ID is asked.\<close>

definition locked_history :: history_file where
  "locked_history = Unreadable (PathError ''open'' ''/h/universal-subnet-runner/config.json'')"

definition no_network_id :: lib where
  "no_network_id = demo_lib\<lparr>GetNetworkID := Inl (LibError ''network stopped'')\<rparr>"

section \<open>The plugin copy: properties\<close>

lemmas copy_defs = copy_def os_Stat_def os_Open_def os_Create_def os_Chmod_def io_Copy_def IsRegular_def Let_def

lemmas host_defs = no_faults_def demo_fs_def plugin_file_def directory_def demo_ports_def dirname_def

text \<open>
  C6. A source that is missing (no entry at the path), unreadable (\<open>os.Stat\<close> or
  \<open>os.Open\<close> fails on it) or not a regular file makes \<open>copy\<close> return an error and leave
  the whole file system as it was, so no destination file is created. And whenever
  \<open>copy\<close> returns without an error, the destination exists with mode \<open>0777\<close>, whose
  execute bits (\<open>0111\<close>, that is \<open>0x49\<close>) are all set.
\<close>

theorem copy_rejects_bad_source:
  "(fs src = None \<or> stat_fails fl src \<or> open_fails fl src \<or> (\<exists>f. fs src = Some f \<and> kind f \<noteq> Regular)
      \<longrightarrow> (\<exists>err. fst (copy fl src dst fs) = (0, Some err)) \<and> snd (copy fl src dst fs) = fs)
   \<and> (\<forall>n fs'. copy fl src dst fs = ((n, None), fs')
      \<longrightarrow> (\<exists>f. fs' dst = Some f \<and> perm f = 0x1FF \<and> perm f AND 0x49 = 0x49))"
  by (auto simp: copy_def os_Stat_def os_Open_def os_Create_def os_Chmod_def io_Copy_def IsRegular_def Let_def
      split: option.splits sum.splits if_splits prod.splits)

lemma copy_demo:
  "copy no_faults ''/h/universal-subnet-runner/avalanchego/plugins/vm'' ''/w/node1/plugins/vm'' demo_fs =
     ((3, None), demo_fs(''/w/node1/plugins/vm'' \<mapsto> \<lparr>kind = Regular, perm = 0x1FF, content = [1, 2, 3]\<rparr>))"
  by (simp add: copy_defs host_defs)

text \<open>
  On the example host: a directory and a missing path as source are refused and nothing
  changes; the plugin file is copied into the plugin directory of the first node and
  the copy can be executed.
\<close>

theorem copy_rejects_bad_source_witness:
  "(\<exists>err. fst (copy no_faults ''/w'' ''/w/node1/plugins/vm'' demo_fs) = (0, Some err))
   \<and> snd (copy no_faults ''/w'' ''/w/node1/plugins/vm'' demo_fs) = demo_fs
   \<and> (\<exists>err. fst (copy no_faults ''/missing'' ''/w/node1/plugins/vm'' demo_fs) = (0, Some err))
   \<and> snd (copy no_faults ''/missing'' ''/w/node1/plugins/vm'' demo_fs) = demo_fs
   \<and> (\<exists>f. snd (copy no_faults ''/h/universal-subnet-runner/avalanchego/plugins/vm'' ''/w/node1/plugins/vm'' demo_fs)
             ''/w/node1/plugins/vm'' = Some f \<and> perm f AND 0x49 = 0x49)"
proof -
  have dir: "\<exists>f. demo_fs ''/w'' = Some f \<and> kind f \<noteq> Regular"
    by (simp add: demo_fs_def directory_def)
  have missing: "demo_fs ''/missing'' = None"
    by (simp add: demo_fs_def demo_ports_def)
  show ?thesis
    using copy_rejects_bad_source [of demo_fs "''/w''" no_faults "''/w/node1/plugins/vm''"]
      copy_rejects_bad_source [of demo_fs "''/missing''" no_faults "''/w/node1/plugins/vm''"]
      copy_rejects_bad_source [of demo_fs "''/h/universal-subnet-runner/avalanchego/plugins/vm''" no_faults
        "''/w/node1/plugins/vm''"]
      dir missing copy_demo
    by simp
qed

text \<open>
  C9, as the code has it. Once the source is a regular file that opens and the
  destination was created (\<open>os.Create\<close>, which \<open>copy\<close> reaches only after \<open>os.Open\<close>
  succeeded), \<open>os.Chmod(dst, 0777)\<close> is called whatever \<open>io.Copy\<close> returned. If it succeeds
  the destination has mode \<open>0777\<close> (\<open>0x1FF\<close>), also when the transfer failed, in which
  case \<open>copy\<close> returns the transfer's error. If it fails, its error is what \<open>copy\<close>
  returns and the destination keeps the mode \<open>os.Create\<close> left. In every case the
  destination stays on disk with the bytes written so far.
\<close>

theorem chmod_after_every_transfer:
  assumes "fs src = Some f0" and "kind f0 = Regular" and "\<not> stat_fails fl src" and "\<not> open_fails fl src"
    and "os_Create fl fs dst = Inr fs1"
  shows "(chmod_fails fl dst \<longrightarrow>
            fst (copy fl src dst fs) = (0, Some (PathError ''chmod'' dst))
          \<and> (\<exists>f g. snd (copy fl src dst fs) dst = Some f \<and> fs1 dst = Some g \<and> perm f = perm g))
     \<and> (\<not> chmod_fails fl dst \<longrightarrow>
            (\<exists>f. snd (copy fl src dst fs) dst = Some f \<and> perm f = 0x1FF)
          \<and> (copy_fails_after fl dst = None \<longrightarrow> snd (fst (copy fl src dst fs)) = None)
          \<and> (\<forall>n. copy_fails_after fl dst = Some n \<longrightarrow>
                snd (fst (copy fl src dst fs)) = Some (PathError ''write'' dst)))
     \<and> (\<exists>f. snd (copy fl src dst fs) dst = Some f
          \<and> content f = (case copy_fails_after fl dst of
                            None \<Rightarrow> (if src = dst then [] else content f0)
                          | Some n \<Rightarrow> take n (if src = dst then [] else content f0)))"
  using assms
  by (auto simp: copy_defs split: option.splits sum.splits if_splits prod.splits)

text \<open>
  On the example host, with a transfer that fails after two bytes: \<open>copy\<close> returns the
  write error, and the destination is there with mode \<open>0777\<close> and the two bytes.
\<close>

theorem chmod_after_every_transfer_witness:
  "fst (copy failing_transfer ''/h/universal-subnet-runner/avalanchego/plugins/vm'' ''/w/node1/plugins/vm'' demo_fs)
     = (2, Some (PathError ''write'' ''/w/node1/plugins/vm''))
   \<and> (\<exists>f. snd (copy failing_transfer ''/h/universal-subnet-runner/avalanchego/plugins/vm''
                ''/w/node1/plugins/vm'' demo_fs) ''/w/node1/plugins/vm'' = Some f
          \<and> perm f = 0x1FF \<and> content f = [1, 2])"
proof -
  let ?src = "''/h/universal-subnet-runner/avalanchego/plugins/vm''"
  let ?dst = "''/w/node1/plugins/vm''"
  have s: "demo_fs ?src = Some plugin_file" "kind plugin_file = Regular"
    by (simp_all add: demo_fs_def plugin_file_def)
  have ok: "\<not> stat_fails failing_transfer ?src" "\<not> open_fails failing_transfer ?src"
    "\<not> chmod_fails failing_transfer ?dst" "copy_fails_after failing_transfer ?dst = Some 2"
    by (simp_all add: failing_transfer_def no_faults_def)
  have c: "os_Create failing_transfer demo_fs ?dst =
      Inr (demo_fs(?dst \<mapsto> \<lparr>kind = Regular, perm = 0x1B6 AND NOT 0x12, content = []\<rparr>))"
    by (simp add: os_Create_def failing_transfer_def host_defs)
  have n: "fst (fst (copy failing_transfer ?src ?dst demo_fs)) = 2"
    by (simp add: copy_defs failing_transfer_def host_defs)
  from chmod_after_every_transfer [OF s ok(1,2) c] ok(3,4)
  have "(\<exists>f. snd (copy failing_transfer ?src ?dst demo_fs) ?dst = Some f \<and> perm f = 0x1FF)"
    and "snd (fst (copy failing_transfer ?src ?dst demo_fs)) = Some (PathError ''write'' ?dst)"
    and "\<exists>f. snd (copy failing_transfer ?src ?dst demo_fs) ?dst = Some f \<and> content f = take 2 (content plugin_file)"
    by simp_all
  then show ?thesis
    using n by (auto simp: plugin_file_def prod_eq_iff)
qed

text \<open>
  C9 as stated ("unconditionally set to 0777" once the source is regular and the
  destination creatable) fails in two ways. A destination that exists with mode \<open>0666\<close>
  and belongs to another user is emptied and written, \<open>os.Chmod\<close> fails, and the mode is
  still \<open>0666\<close> (\<open>0x1B6\<close>). And a regular source that cannot be opened for reading ends
  \<open>copy\<close> before \<open>os.Create\<close>: the destination, which could be created, does not exist.
\<close>

theorem chmod_failure_keeps_mode:
  "demo_fs ''/h/universal-subnet-runner/avalanchego/plugins/vm'' = Some plugin_file
   \<and> kind plugin_file = Regular
   \<and> os_Create foreign_destination (demo_fs(''/w/node1/plugins/vm'' \<mapsto> old_plugin)) ''/w/node1/plugins/vm''
      = Inr (demo_fs(''/w/node1/plugins/vm'' \<mapsto> \<lparr>kind = Regular, perm = 0x1B6, content = []\<rparr>))
   \<and> copy foreign_destination ''/h/universal-subnet-runner/avalanchego/plugins/vm'' ''/w/node1/plugins/vm''
        (demo_fs(''/w/node1/plugins/vm'' \<mapsto> old_plugin))
      = ((0, Some (PathError ''chmod'' ''/w/node1/plugins/vm'')),
         demo_fs(''/w/node1/plugins/vm'' \<mapsto> \<lparr>kind = Regular, perm = 0x1B6, content = [1, 2, 3]\<rparr>))
   \<and> (0x1B6 :: 32 word) \<noteq> 0x1FF
   \<and> os_Create unreadable_plugin demo_fs ''/w/node1/plugins/vm''
      = Inr (demo_fs(''/w/node1/plugins/vm'' \<mapsto> \<lparr>kind = Regular, perm = 0x1B6 AND NOT 0x12, content = []\<rparr>))
   \<and> copy unreadable_plugin ''/h/universal-subnet-runner/avalanchego/plugins/vm'' ''/w/node1/plugins/vm'' demo_fs
      = ((0, Some (PathError ''open'' ''/h/universal-subnet-runner/avalanchego/plugins/vm'')), demo_fs)
   \<and> demo_fs ''/w/node1/plugins/vm'' = None"
  by (simp add: copy_defs foreign_destination_def unreadable_plugin_def old_plugin_def host_defs)

section \<open>The subnet partitioner: properties\<close>

lemma go_slice_group:
  assumes "0 \<le> sz" "0 \<le> i" "i < amount" "amount * sz \<le> int (length names)"
  shows "go_slice names (i * sz) ((i + 1) * sz) = Inr (take (nat sz) (drop (nat i * nat sz) names))"
proof -
  have "(i + 1) * sz \<le> amount * sz"
    using assms by (intro mult_right_mono) auto
  then have hi: "(i + 1) * sz \<le> int (length names)"
    using assms(4) by linarith
  have lo: "0 \<le> i * sz" "i * sz \<le> (i + 1) * sz"
    using assms by (auto simp: algebra_simps)
  have w: "nat ((i + 1) * sz - i * sz) = nat sz"
    by (simp add: algebra_simps)
  have d: "nat (i * sz) = nat i * nat sz"
    using assms by (simp add: nat_mult_distrib)
  show ?thesis
    unfolding go_slice_def using hi lo w d by simp
qed

lemma specs_loop_eq:
  "0 \<le> sz \<Longrightarrow> 0 \<le> i \<Longrightarrow> i \<le> amount \<Longrightarrow> amount * sz \<le> int (length names) \<Longrightarrow>
   specs_loop sz P names amount i acc =
     Inr (acc @ map (\<lambda>j. mk_spec P (take (nat sz) (drop (j * nat sz) names))) [nat i ..< nat amount])"
proof (induction sz P names amount i acc rule: specs_loop.induct)
  case (1 sz P names amount i acc)
  show ?case
  proof (cases "i < amount")
    case False
    with "1.prems" have "i = amount" by simp
    then show ?thesis by (simp add: specs_loop.simps)
  next
    case True
    have sl: "go_slice names (i * sz) ((i + 1) * sz) = Inr (take (nat sz) (drop (nat i * nat sz) names))"
      using go_slice_group [of sz i amount names] "1.prems" True by simp
    have step: "specs_loop sz P names amount (i + 1) (acc @ [mk_spec P (take (nat sz) (drop (nat i * nat sz) names))]) =
        Inr ((acc @ [mk_spec P (take (nat sz) (drop (nat i * nat sz) names))]) @
          map (\<lambda>j. mk_spec P (take (nat sz) (drop (j * nat sz) names))) [nat (i + 1) ..< nat amount])"
      using "1.IH" [OF True sl] "1.prems" True by simp
    have up: "[nat i ..< nat amount] = nat i # [nat (i + 1) ..< nat amount]"
      using True "1.prems" by (simp add: upt_conv_Cons nat_add_distrib)
    show ?thesis
      by (subst specs_loop.simps) (simp add: True sl step up)
  qed
qed

lemma concat_groups:
  "n * sz \<le> length xs \<Longrightarrow> concat (map (\<lambda>j. take sz (drop (j * sz) xs)) [0..<n]) = take (n * sz) xs"
proof (induction n)
  case 0
  then show ?case by simp
next
  case (Suc n)
  then have "concat (map (\<lambda>j. take sz (drop (j * sz) xs)) [0..<n]) = take (n * sz) xs" by simp
  moreover have "take (n * sz) xs @ take sz (drop (n * sz) xs) = take (n * sz + sz) xs"
    by (simp add: take_add)
  ultimately show ?case by (simp add: add.commute)
qed

lemma groups_disjoint:
  assumes "distinct xs" "i \<noteq> j"
  shows "set (take sz (drop (i * sz) xs)) \<inter> set (take sz (drop (j * sz) xs)) = {}"
proof -
  have *: "set (take sz (drop (a * sz) xs)) \<inter> set (take sz (drop (b * sz) xs)) = {}" if "a < b" for a b
  proof -
    have "Suc a \<le> b" using that by simp
    then have le: "a * sz + sz \<le> b * sz"
      by (metis mult_Suc mult_le_mono1 add.commute)
    have "set (take sz (drop (a * sz) xs)) \<subseteq> set (take (b * sz) xs)"
    proof -
      have "take sz (drop (a * sz) xs) = drop (a * sz) (take (a * sz + sz) xs)"
        by (simp add: drop_take)
      then have "set (take sz (drop (a * sz) xs)) \<subseteq> set (take (a * sz + sz) xs)"
        by (metis set_drop_subset)
      also have "\<dots> \<subseteq> set (take (b * sz) xs)"
        using le by (rule set_take_subset_set_take)
      finally show ?thesis .
    qed
    moreover have "set (take sz (drop (b * sz) xs)) \<subseteq> set (drop (b * sz) xs)"
      by (rule set_take_subset)
    moreover have "set (take (b * sz) xs) \<inter> set (drop (b * sz) xs) = {}"
      using assms(1) by (metis append_take_drop_id distinct_append)
    ultimately show ?thesis by blast
  qed
  from assms(2) consider "i < j" | "j < i" by linarith
  then show ?thesis
  proof cases
    case 1 then show ?thesis by (rule *)
  next
    case 2 then show ?thesis using * [of j i] by blast
  qed
qed

lemma specs_loop_groups:
  assumes "0 \<le> sz" and "0 \<le> amount" and "amount * sz \<le> int (length names)"
  shows "\<exists>specs. specs_loop sz P names amount 0 [] = Inr specs
     \<and> (sz = subnetSize \<longrightarrow> partition_subnets P names amount = Inr specs)
     \<and> length specs = nat amount
     \<and> (\<forall>i<nat amount.
           Participants (SubnetSpec (specs ! i)) = take (nat sz) (drop (i * nat sz) names)
         \<and> length (Participants (SubnetSpec (specs ! i))) = nat sz)
     \<and> concat (map (\<lambda>s. Participants (SubnetSpec s)) specs) = take (nat amount * nat sz) names
     \<and> (distinct names \<longrightarrow>
          (\<forall>i<nat amount. \<forall>j<nat amount. i \<noteq> j \<longrightarrow>
             set (Participants (SubnetSpec (specs ! i))) \<inter> set (Participants (SubnetSpec (specs ! j))) = {}))"
proof -
  let ?g = "\<lambda>j. take (nat sz) (drop (j * nat sz) names)"
  let ?specs = "map (\<lambda>j. mk_spec P (?g j)) [0..<nat amount]"
  have run: "specs_loop sz P names amount 0 [] = Inr ?specs"
    using specs_loop_eq [of sz 0 amount names P "[]"] assms by simp
  have part: "sz = subnetSize \<longrightarrow> partition_subnets P names amount = Inr ?specs"
    using run assms(2) by (auto simp: partition_subnets_def)
  have bound: "nat amount * nat sz \<le> length names"
  proof -
    have "int (nat amount * nat sz) = amount * sz" using assms by simp
    then show ?thesis using assms(3) by linarith
  qed
  have nth: "Participants (SubnetSpec (?specs ! i)) = ?g i" if "i < nat amount" for i
    using that by (simp add: mk_spec_def)
  have len: "length (?g i) = nat sz" if "i < nat amount" for i
  proof -
    have "Suc i \<le> nat amount" using that by simp
    then have "Suc i * nat sz \<le> nat amount * nat sz" by (rule mult_le_mono1)
    then have "i * nat sz + nat sz \<le> length names" using bound by simp
    then show ?thesis by simp
  qed
  have cat: "concat (map (\<lambda>s. Participants (SubnetSpec s)) ?specs) = take (nat amount * nat sz) names"
    using concat_groups [OF bound] by (simp add: comp_def mk_spec_def)
  have dis: "set (Participants (SubnetSpec (?specs ! i))) \<inter> set (Participants (SubnetSpec (?specs ! j))) = {}"
    if "distinct names" "i < nat amount" "j < nat amount" "i \<noteq> j" for i j
    using that groups_disjoint [of names i j "nat sz"] by (simp add: mk_spec_def)
  show ?thesis
    using run part nth len cat dis by (intro exI [of _ ?specs]) simp
qed

text \<open>
  C4. For a node list and counts that are not negative with
  \<open>subnetCount * subnetSize \<le> len(nodes)\<close>, the loop does not panic and returns exactly
  \<open>subnetCount\<close> specs; group \<open>i\<close> is the \<open>subnetSize\<close> names from index \<open>i * subnetSize\<close> on
  (contiguous, in list order, from index 0), so each group has exactly \<open>subnetSize\<close>
  names; the groups one after the other are the first \<open>subnetCount * subnetSize\<close> names;
  and when the names are distinct the groups are pairwise disjoint. With
  \<open>sz = subnetSize\<close> this is what \<open>run\<close> computes.
\<close>

theorem partition_disjoint_contiguous:
  assumes "0 \<le> sz" and "0 \<le> amount" and "amount * sz \<le> int (length names)"
  shows "\<exists>specs. specs_loop sz P names amount 0 [] = Inr specs
     \<and> (sz = subnetSize \<longrightarrow> partition_subnets P names amount = Inr specs)
     \<and> length specs = nat amount
     \<and> (\<forall>i<nat amount.
           Participants (SubnetSpec (specs ! i)) = take (nat sz) (drop (i * nat sz) names)
         \<and> length (Participants (SubnetSpec (specs ! i))) = nat sz)
     \<and> concat (map (\<lambda>s. Participants (SubnetSpec s)) specs) = take (nat amount * nat sz) names
     \<and> (distinct names \<longrightarrow>
          (\<forall>i<nat amount. \<forall>j<nat amount. i \<noteq> j \<longrightarrow>
             set (Participants (SubnetSpec (specs ! i))) \<inter> set (Participants (SubnetSpec (specs ! j))) = {}))"
  using assms by (rule specs_loop_groups)

theorem partition_disjoint_contiguous_witness:
  "\<exists>specs. partition_subnets demo_params nine_nodes 3 = Inr specs
     \<and> length specs = 3
     \<and> Participants (SubnetSpec (specs ! 1)) = [''node4'', ''node5'', ''node6'']
     \<and> concat (map (\<lambda>s. Participants (SubnetSpec s)) specs) = nine_nodes
     \<and> set (Participants (SubnetSpec (specs ! 0))) \<inter> set (Participants (SubnetSpec (specs ! 2))) = {}"
proof -
  have d: "distinct nine_nodes" by (simp add: nine_nodes_def)
  have l: "(3::int) * 3 \<le> int (length nine_nodes)" by (simp add: nine_nodes_def)
  from partition_disjoint_contiguous [of 3 3 nine_nodes demo_params] l d
  obtain specs where s: "partition_subnets demo_params nine_nodes 3 = Inr specs"
      "length specs = 3"
      "\<forall>i<3. Participants (SubnetSpec (specs ! i)) = take 3 (drop (i * 3) nine_nodes)"
      "concat (map (\<lambda>s. Participants (SubnetSpec s)) specs) = take 9 nine_nodes"
      "\<forall>i<3. \<forall>j<3. i \<noteq> j \<longrightarrow>
         set (Participants (SubnetSpec (specs ! i))) \<inter> set (Participants (SubnetSpec (specs ! j))) = {}"
    by (auto simp: subnetSize_def)
  from s(3) have "Participants (SubnetSpec (specs ! 1)) = take 3 (drop 3 nine_nodes)"
    by (metis mult_1 one_less_numeral_iff semiring_norm(77))
  then have one: "Participants (SubnetSpec (specs ! 1)) = [''node4'', ''node5'', ''node6'']"
    by (simp add: nine_nodes_def)
  from s(5) have two: "set (Participants (SubnetSpec (specs ! 0))) \<inter> set (Participants (SubnetSpec (specs ! 2))) = {}"
    by simp
  from s(4) have cat: "concat (map (\<lambda>s. Participants (SubnetSpec s)) specs) = nine_nodes"
    by (simp add: nine_nodes_def)
  show ?thesis using s(1,2) one two cat by blast
qed

text \<open>
  Conversely, a partition that does not panic had enough names: the subnet count is not
  negative and \<open>amountOfSubnets * subnetSize \<le> len(nodeNames)\<close>.
\<close>

lemma specs_loop_bound:
  "specs_loop sz P names a i acc = Inr specs \<Longrightarrow> 0 \<le> sz \<Longrightarrow> 0 \<le> i \<Longrightarrow> i < a \<Longrightarrow>
   a * sz \<le> int (length names)"
proof (induction sz P names a i acc rule: specs_loop.induct)
  case (1 sz P names a i acc)
  from "1.prems"(1,4) obtain ps where
    sl: "go_slice names (i * sz) ((i + 1) * sz) = Inr ps"
    and rest: "specs_loop sz P names a (i + 1) (acc @ [mk_spec P ps]) = Inr specs"
    by (subst (asm) specs_loop.simps) (auto split: sum.splits)
  from sl have hi: "(i + 1) * sz \<le> int (length names)"
    by (auto simp: go_slice_def split: if_splits)
  show ?case
  proof (cases "i + 1 < a")
    case True
    from "1.IH" [OF "1.prems"(4) sl rest "1.prems"(2) _ True] "1.prems"(3) show ?thesis by simp
  next
    case False
    with "1.prems"(4) have "a = i + 1" by simp
    with hi show ?thesis by simp
  qed
qed

lemma partition_subnets_bound:
  assumes "partition_subnets P names a = Inr specs"
  shows "0 \<le> a \<and> a * subnetSize \<le> int (length names)"
proof -
  from assms have a: "0 \<le> a" and l: "specs_loop subnetSize P names a 0 [] = Inr specs"
    by (auto simp: partition_subnets_def split: if_splits)
  show ?thesis
  proof (cases "a = 0")
    case True
    then show ?thesis by simp
  next
    case False
    with a have "0 < a" by simp
    from specs_loop_bound [OF l _ _ this] a show ?thesis by (simp add: subnetSize_def)
  qed
qed

section \<open>The requested node count: properties\<close>

lemma unat_word_of_int_32:
  "0 \<le> k \<Longrightarrow> k < 2 ^ 32 \<Longrightarrow> int (unat (word_of_int k :: 32 word)) = k"
  by (simp add: uint_word_of_int take_bit_int_eq_self unsigned_of_int)

lemma unat_requested_nodes:
  assumes "0 \<le> amount" and "subnetSize * amount < 2 ^ 32"
  shows "int (unat (requested_nodes amount)) = subnetSize * amount"
proof -
  have "0 \<le> subnetSize * amount" using assms(1) by (simp add: subnetSize_def)
  then show ?thesis
    unfolding requested_nodes_def using assms(2) by (rule unat_word_of_int_32)
qed

lemma requested_nodes_exact:
  assumes "0 \<le> amount" and "amount * subnetSize \<le> int (unat (requested_nodes amount))"
  shows "int (unat (requested_nodes amount)) = subnetSize * amount"
proof -
  have "uint (requested_nodes amount) < 2 ^ 32"
    using uint_bounded [of "requested_nodes amount"] by simp
  then have "int (unat (requested_nodes amount)) < 2 ^ 32"
    by simp
  with assms(2) have "subnetSize * amount < 2 ^ 32" by (simp add: mult.commute)
  with assms(1) show ?thesis by (rule unat_requested_nodes)
qed

section \<open>Runs of the two programs: what a step leaves untouched\<close>

lemma say_fields [simp]:
  "launched (say e st) = launched st" "configs (say e st) = configs st" "history (say e st) = history st"
  "stops (say e st) = stops st" "files (say e st) = files st" "now (say e st) = now st"
  "created (say e st) = created st" "logs (say e st) = logs st @ [e]"
  by (simp_all add: say_def)

lemma call_Stop_fields [simp]:
  "launched (call_Stop L st) = launched st" "configs (call_Stop L st) = configs st"
  "history (call_Stop L st) = history st" "stops (call_Stop L st) = stops st + 1"
  "created (call_Stop L st) = created st"
  by (simp_all add: call_Stop_def split: option.splits)

lemma deliver_fields [simp]:
  "launched (deliver sig p L st) = launched st" "configs (deliver sig p L st) = configs st"
  "history (deliver sig p L st) = history st" "created (deliver sig p L st) = created st"
  by (simp_all add: deliver_def hist_shutdownOnSignal_def)

lemma multi_await_returns [simp]:
  "multi_await ctx L k T st \<noteq> None"
  by (cases "ctx_done ctx"; cases "cluster L k")
    (auto simp: multi_await_def Healthy_def WithTimeout_def Let_def split: option.splits prod.splits)

lemma multi_await_fields:
  assumes "multi_await ctx L k T st = Some (err, st')"
  shows "launched st' = launched st \<and> configs st' = configs st \<and> history st' = history st
     \<and> created st' = created st \<and> stops st' = stops st \<and> files st' = files st"
  using assms by (auto simp: multi_await_def Let_def split: option.splits if_splits)

lemma multi_await_healthy:
  assumes "multi_await ctx L k T st = Some (None, st')"
  shows "logs st' = logs st @ [Log Info ''waiting for all nodes to report healthy...'' [],
                               Log Info ''all nodes healthy...'' []]"
  using assms by (auto simp: multi_await_def Let_def split: option.splits if_splits)

lemma rpc_loop_fields:
  "rpc_loop L pick chs i names urls st = (r, urls', st') \<Longrightarrow>
   launched st' = launched st \<and> configs st' = configs st \<and> history st' = history st
   \<and> created st' = created st \<and> stops st' = stops st \<and> files st' = files st \<and> now st' = now st"
  by (induction names arbitrary: i urls st) (auto split: sum.splits)

lemma multi_shutdownOnSignal_fields [simp]:
  "launched (snd (multi_shutdownOnSignal sig st)) = launched st"
  "created (snd (multi_shutdownOnSignal sig st)) = created st"
  "stops (snd (multi_shutdownOnSignal sig st)) = stops st"
  "logs (snd (multi_shutdownOnSignal sig st)) =
     logs st @ (case sig of None \<Rightarrow> [] | Some p \<Rightarrow> [Log Info ''got OS signal'' [SignalField]])"
  by (simp_all add: multi_shutdownOnSignal_def split: option.splits)

lemma deferred_Stop_fields [simp]:
  "launched (snd (deferred_Stop L r)) = launched (snd r)" "configs (snd (deferred_Stop L r)) = configs (snd r)"
  "history (snd (deferred_Stop L r)) = history (snd r)" "created (snd (deferred_Stop L r)) = created (snd r)"
  by (simp_all add: deferred_Stop_def split: outcome.splits)

lemma deferred_Stop_logs:
  "\<exists>rest. logs (snd (deferred_Stop L r)) = logs (snd r) @ rest"
  by (auto simp: deferred_Stop_def call_Stop_def say_def split: outcome.splits option.splits)

lemma deferred_Stop_outcome [simp]:
  "fst (deferred_Stop L r) = fst r"
  by (simp add: deferred_Stop_def split: outcome.splits)

lemma finish_fields [simp]:
  "launched (snd (finish r)) = launched (snd r)" "configs (snd (finish r)) = configs (snd r)"
  "history (snd (finish r)) = history (snd r)" "created (snd (finish r)) = created (snd r)"
  by (simp_all add: finish_def split: outcome.splits option.splits)

lemma finish_running:
  assumes "fst (finish r) = Exit 0 \<or> fst (finish r) = Hang"
  shows "(fst r = Returned None \<or> fst r = Blocked) \<and> snd (finish r) = snd r"
  using assms by (auto simp: finish_def split: outcome.splits option.splits)

section \<open>The RPC URLs: properties\<close>

text \<open>
  The URL loop when every node is found and every pick is an index of \<open>chains\<close>, and the
  converse: a loop that ended without a failure found every node and every chain.
\<close>

lemma rpc_loop_eq:
  assumes "\<forall>j<length names. \<exists>nd. GetNode L 1 (names ! j) = Inr nd"
    and "\<forall>j<length names. 0 \<le> pick (i + int j) \<and> pick (i + int j) < int (length chs)"
  shows "rpc_loop L pick chs i names urls st =
     (None,
      urls @ map (\<lambda>j. rpc_url (apiPort (projr (GetNode L 1 (names ! j)))) (chs ! nat (pick (i + int j))))
               [0..<length names],
      st\<lparr>logs := logs st @ map (\<lambda>j. Log Info ''subnet rpc url''
                     [StringField ''node'' (names ! j),
                      StringField ''url'' (rpc_url (apiPort (projr (GetNode L 1 (names ! j)))) (chs ! nat (pick (i + int j))))])
                 [0..<length names]\<rparr>)"
  using assms
proof (induction names arbitrary: i urls st)
  case Nil
  then show ?case by simp
next
  case (Cons name rest)
  from Cons.prems(1) obtain nd where nd: "GetNode L 1 name = Inr nd" by fastforce
  from Cons.prems(2) have p0: "0 \<le> pick i" "pick i < int (length chs)" by fastforce+
  have r1: "\<forall>j<length rest. \<exists>nd. GetNode L 1 (rest ! j) = Inr nd"
    using Cons.prems(1) by fastforce
  have r2: "\<forall>j<length rest. 0 \<le> pick (i + 1 + int j) \<and> pick (i + 1 + int j) < int (length chs)"
  proof (intro allI impI)
    fix j assume "j < length rest"
    then have "Suc j < length (name # rest)" by simp
    with Cons.prems(2) have "0 \<le> pick (i + int (Suc j)) \<and> pick (i + int (Suc j)) < int (length chs)" by blast
    moreover have "i + int (Suc j) = i + 1 + int j" by simp
    ultimately show "0 \<le> pick (i + 1 + int j) \<and> pick (i + 1 + int j) < int (length chs)"
      by (simp only:)
  qed
  have up: "[0..<length (name # rest)] = 0 # map Suc [0..<length rest]"
    by (simp add: upt_conv_Cons map_Suc_upt del: upt_Suc)
  have ix: "i + 1 + int j = i + int (Suc j)" for j by simp
  show ?case
    unfolding up
    using Cons.IH [OF r1 r2] nd p0
    by (simp add: go_index_def comp_def ix say_def del: of_nat_Suc)
qed

lemma rpc_loop_done:
  "rpc_loop L pick chs i names urls st = (None, urls', st') \<Longrightarrow>
   (\<forall>j<length names. \<exists>nd. GetNode L 1 (names ! j) = Inr nd)
   \<and> (\<forall>j<length names. 0 \<le> pick (i + int j) \<and> pick (i + int j) < int (length chs))"
proof (induction names arbitrary: i urls st)
  case Nil
  then show ?case by simp
next
  case (Cons name rest)
  from Cons.prems obtain nd where nd: "GetNode L 1 name = Inr nd"
    by (auto split: sum.splits)
  from Cons.prems nd have p0: "0 \<le> pick i \<and> pick i < int (length chs)"
    by (auto simp: go_index_def split: sum.splits if_splits)
  from Cons.prems nd p0 have
    "rpc_loop L pick chs (i + 1) rest (urls @ [rpc_url (apiPort nd) (chs ! nat (pick i))])
       (say (Log Info ''subnet rpc url''
               [StringField ''node'' name, StringField ''url'' (rpc_url (apiPort nd) (chs ! nat (pick i)))]) st)
     = (None, urls', st')"
    by (simp add: go_index_def)
  from Cons.IH [OF this] have
    ih: "\<forall>j<length rest. \<exists>nd. GetNode L 1 (rest ! j) = Inr nd"
      "\<forall>j<length rest. 0 \<le> pick (i + 1 + int j) \<and> pick (i + 1 + int j) < int (length chs)"
    by blast+
  have a: "\<exists>nd. GetNode L 1 ((name # rest) ! j) = Inr nd" if "j < length (name # rest)" for j
    using that nd ih(1) by (cases j) auto
  have b: "0 \<le> pick (i + int j) \<and> pick (i + int j) < int (length chs)" if "j < length (name # rest)" for j
  proof (cases j)
    case 0
    then show ?thesis using p0 by simp
  next
    case (Suc m)
    then have "m < length rest" using that by simp
    with ih(2) have "0 \<le> pick (i + 1 + int m) \<and> pick (i + 1 + int m) < int (length chs)" by blast
    moreover have "i + 1 + int m = i + int j" using Suc by simp
    ultimately show ?thesis by (simp only:)
  qed
  show ?case using a b by blast
qed

text \<open>
  A run that reaches the point where the network runs took the successful branch of
  every step before.
\<close>

lemma multi_provision_running:
  assumes "fst (multi_provision ctx L fl sig P a bin nw st) = Returned None
         \<or> fst (multi_provision ctx L fl sig P a bin nw st) = Blocked"
  shows "\<exists>st1 names fs' specs chs st3 urls st4.
      multi_await ctx L 0 healthyTimeout st = Some (None, st1)
    \<and> GetNodeNames L nw = Inr names
    \<and> plugin_loop L fl bin (pluginID P) names (files st1) = (None, fs')
    \<and> partition_subnets P names a = Inr specs
    \<and> CreateBlockchains L specs = Inr chs
    \<and> multi_await ctx L 1 healthyTimeout (st1\<lparr>files := fs', created := created st1 @ [specs]\<rparr>) = Some (None, st3)
    \<and> rpc_loop L (\<lambda>i. i div subnetSize) chs 0 names [] st3 = (None, urls, st4)
    \<and> multi_provision ctx L fl sig P a bin nw st =
        multi_shutdownOnSignal sig (say (Log Info ''Network will run until you CTRL + C to exit...'' []) st4)"
  using assms unfolding multi_provision_def
  by (auto simp: Let_def split: option.splits sum.splits prod.splits fault.splits)

lemma multi_provision_urls:
  assumes "fst (multi_provision ctx L fl sig P a bin nw st) = Returned None
         \<or> fst (multi_provision ctx L fl sig P a bin nw st) = Blocked"
  shows "\<exists>names specs chs nds.
       GetNodeNames L nw = Inr names
     \<and> partition_subnets P names a = Inr specs
     \<and> CreateBlockchains L specs = Inr chs
     \<and> launched (snd (multi_provision ctx L fl sig P a bin nw st)) = launched st
     \<and> created (snd (multi_provision ctx L fl sig P a bin nw st)) = created st @ [specs]
     \<and> length nds = length names
     \<and> (\<forall>i<length names. GetNode L 1 (names ! i) = Inr (nds ! i) \<and> i div 3 < length chs)
     \<and> logs (snd (multi_provision ctx L fl sig P a bin nw st)) =
         logs st
         @ [Log Info ''waiting for all nodes to report healthy...'' [], Log Info ''all nodes healthy...'' [],
            Log Info ''waiting for all nodes to report healthy...'' [], Log Info ''all nodes healthy...'' []]
         @ map (\<lambda>i. Log Info ''subnet rpc url''
                  [StringField ''node'' (names ! i),
                   StringField ''url'' (''http://127.0.0.1:'' @ decimal (unat (apiPort (nds ! i))) @ ''/ext/bc/''
                                         @ chs ! (i div 3) @ ''/rpc'')])
             [0..<length names]
         @ [Log Info ''Network will run until you CTRL + C to exit...'' []]
         @ (case sig of None \<Rightarrow> [] | Some p \<Rightarrow> [Log Info ''got OS signal'' [SignalField]])"
proof -
  let ?W = "Log Info ''waiting for all nodes to report healthy...'' []"
  let ?H = "Log Info ''all nodes healthy...'' []"
  from multi_provision_running [OF assms]
  obtain st1 names fs' specs chs st3 urls st4 where
    w1: "multi_await ctx L 0 healthyTimeout st = Some (None, st1)"
    and nm: "GetNodeNames L nw = Inr names"
    and pt: "partition_subnets P names a = Inr specs"
    and cb: "CreateBlockchains L specs = Inr chs"
    and w2: "multi_await ctx L 1 healthyTimeout (st1\<lparr>files := fs', created := created st1 @ [specs]\<rparr>) = Some (None, st3)"
    and rl: "rpc_loop L (\<lambda>i. i div subnetSize) chs 0 names [] st3 = (None, urls, st4)"
    and fin: "multi_provision ctx L fl sig P a bin nw st =
        multi_shutdownOnSignal sig (say (Log Info ''Network will run until you CTRL + C to exit...'' []) st4)"
    by blast
  let ?nds = "map (\<lambda>n. projr (GetNode L 1 n)) names"
  from rpc_loop_done [OF rl] have
    g: "\<forall>j<length names. \<exists>nd. GetNode L 1 (names ! j) = Inr nd"
    and r: "\<forall>j<length names. 0 \<le> (0 + int j) div subnetSize \<and> (0 + int j) div subnetSize < int (length chs)"
    by blast+
  have nat_pick: "nat (int j div subnetSize) = j div 3" for j
    by (simp add: subnetSize_def zdiv_int [symmetric])
  have ix: "j div 3 < length chs" if "j < length names" for j
  proof -
    from r that have "(0 + int j) div subnetSize < int (length chs)" by blast
    then have "int (j div 3) < int (length chs)" by (simp add: subnetSize_def zdiv_int)
    then show ?thesis by simp
  qed
  have nds: "\<forall>i<length names. GetNode L 1 (names ! i) = Inr (?nds ! i) \<and> i div 3 < length chs"
    using g ix by fastforce
  have st4: "logs st4 = logs st3 @ map (\<lambda>j. Log Info ''subnet rpc url''
                     [StringField ''node'' (names ! j),
                      StringField ''url'' (rpc_url (apiPort (projr (GetNode L 1 (names ! j)))) (chs ! (j div 3)))])
                 [0..<length names]"
    using rl unfolding rpc_loop_eq [OF g r] by (auto simp: nat_pick)
  have f4: "launched st4 = launched st3" "created st4 = created st3"
    using rpc_loop_fields [OF rl] by simp_all
  have l3: "logs st3 = logs st1 @ [?W, ?H]" and f3: "launched st3 = launched st1" "created st3 = created st1 @ [specs]"
    using multi_await_healthy [OF w2] multi_await_fields [OF w2] by simp_all
  have l1: "logs st1 = logs st @ [?W, ?H]" and f1: "launched st1 = launched st" "created st1 = created st"
    using multi_await_healthy [OF w1] multi_await_fields [OF w1] by simp_all
  have lg: "logs (snd (multi_provision ctx L fl sig P a bin nw st)) =
         logs st @ [?W, ?H, ?W, ?H]
         @ map (\<lambda>i. Log Info ''subnet rpc url''
                  [StringField ''node'' (names ! i),
                   StringField ''url'' (''http://127.0.0.1:'' @ decimal (unat (apiPort (?nds ! i))) @ ''/ext/bc/''
                                         @ chs ! (i div 3) @ ''/rpc'')])
             [0..<length names]
         @ [Log Info ''Network will run until you CTRL + C to exit...'' []]
         @ (case sig of None \<Rightarrow> [] | Some p \<Rightarrow> [Log Info ''got OS signal'' [SignalField]])"
    unfolding fin by (simp add: st4 l3 l1 rpc_url_def)
  have la: "launched (snd (multi_provision ctx L fl sig P a bin nw st)) = launched st"
    and cr: "created (snd (multi_provision ctx L fl sig P a bin nw st)) = created st @ [specs]"
    unfolding fin by (simp_all add: f4 f3 f1)
  have "length ?nds = length names" by simp
  with nm pt cb la cr nds lg show ?thesis by blast
qed

lemma multi_run_running:
  assumes "fst (multi_run ctx L fl sig P a bin wd st) = Returned None
         \<or> fst (multi_run ctx L fl sig P a bin wd st) = Blocked"
  shows "\<exists>cfg nw. NewDefaultConfigNNodes L (bin @ ''/avalanchego'') (requested_nodes a) = Inr cfg
     \<and> nw = cfg\<lparr>NetFlags := (NetFlags cfg)(''log-level'' \<mapsto> StrV ''INFO'')\<rparr>
     \<and> multi_run ctx L fl sig P a bin wd st =
         deferred_Stop L (multi_provision ctx L fl sig P a bin nw (st\<lparr>launched := launched st @ [(nw, wd)]\<rparr>))
     \<and> (fst (multi_provision ctx L fl sig P a bin nw (st\<lparr>launched := launched st @ [(nw, wd)]\<rparr>)) = Returned None
        \<or> fst (multi_provision ctx L fl sig P a bin nw (st\<lparr>launched := launched st @ [(nw, wd)]\<rparr>)) = Blocked)"
  using assms unfolding multi_run_def
  by (auto simp: Let_def split: sum.splits option.splits)

text \<open>
  C5. Take any run of the multi-subnet program that comes to the point where the network
  runs: it ends with exit code 0 after a signal, or it waits for one for ever. Then the
  blockchains were created from the node names of the network that was started, every
  node was found, and the log holds, after the four lines of the two health waits, one
  line \<open>subnet rpc url\<close> for every node, in the order of the node list: the line of the
  node at index \<open>i\<close> names that node and the URL
  \<open>http://127.0.0.1:{apiPort}/ext/bc/{chains[i div 3]}/rpc\<close>, where \<open>chains\<close> is what
  \<open>CreateBlockchains\<close> returned and \<open>i div 3\<close> is an index of it. The line that the network
  will run follows.
\<close>

theorem rpc_url_per_subnet:
  assumes "fst (multi_main L fl sf sig P amountOfSubnets home unixTime fs h t) = Exit 0
         \<or> fst (multi_main L fl sf sig P amountOfSubnets home unixTime fs h t) = Hang"
  shows "\<exists>nw workDir names specs chs nds rest.
       launched (snd (multi_main L fl sf sig P amountOfSubnets home unixTime fs h t)) = [(nw, workDir)]
     \<and> GetNodeNames L nw = Inr names
     \<and> created (snd (multi_main L fl sf sig P amountOfSubnets home unixTime fs h t)) = [specs]
     \<and> CreateBlockchains L specs = Inr chs
     \<and> length nds = length names
     \<and> (\<forall>i<length names. GetNode L 1 (names ! i) = Inr (nds ! i) \<and> i div 3 < length chs)
     \<and> logs (snd (multi_main L fl sf sig P amountOfSubnets home unixTime fs h t)) =
         [Log Info ''waiting for all nodes to report healthy...'' [], Log Info ''all nodes healthy...'' [],
          Log Info ''waiting for all nodes to report healthy...'' [], Log Info ''all nodes healthy...'' []]
         @ map (\<lambda>i. Log Info ''subnet rpc url''
                  [StringField ''node'' (names ! i),
                   StringField ''url'' (''http://127.0.0.1:'' @ decimal (unat (apiPort (nds ! i))) @ ''/ext/bc/''
                                         @ chs ! (i div 3) @ ''/rpc'')])
             [0..<length names]
         @ Log Info ''Network will run until you CTRL + C to exit...'' [] # rest"
proof -
  let ?bin = "home @ ''/universal-subnet-runner/avalanchego''"
  let ?wd = "home @ ''/universal-subnet-runner/networks/'' @ decimal unixTime @ ''/nodes''"
  let ?run = "multi_run Background L fl sig P amountOfSubnets ?bin ?wd (initial fs h t)"
  have lg: "logger_fails sf = None"
    using assms by (auto simp: multi_main_def Let_def split: option.splits)
  then have main: "multi_main L fl sf sig P amountOfSubnets home unixTime fs h t = finish ?run"
    by (simp add: multi_main_def Let_def)
  from assms have out: "fst ?run = Returned None \<or> fst ?run = Blocked"
    and S: "snd (multi_main L fl sf sig P amountOfSubnets home unixTime fs h t) = snd ?run"
    unfolding main using finish_running [of ?run] by blast+
  from multi_run_running [OF out]
  obtain nw where
    run: "?run = deferred_Stop L (multi_provision Background L fl sig P amountOfSubnets ?bin nw
             ((initial fs h t)\<lparr>launched := launched (initial fs h t) @ [(nw, ?wd)]\<rparr>))"
    and pr: "fst (multi_provision Background L fl sig P amountOfSubnets ?bin nw
             ((initial fs h t)\<lparr>launched := launched (initial fs h t) @ [(nw, ?wd)]\<rparr>)) = Returned None
           \<or> fst (multi_provision Background L fl sig P amountOfSubnets ?bin nw
             ((initial fs h t)\<lparr>launched := launched (initial fs h t) @ [(nw, ?wd)]\<rparr>)) = Blocked"
    by blast
  let ?st0 = "(initial fs h t)\<lparr>launched := launched (initial fs h t) @ [(nw, ?wd)]\<rparr>"
  let ?mp = "multi_provision Background L fl sig P amountOfSubnets ?bin nw ?st0"
  from multi_provision_urls [OF pr]
  obtain names specs chs nds where
    nm: "GetNodeNames L nw = Inr names" and cb: "CreateBlockchains L specs = Inr chs"
    and la: "launched (snd ?mp) = launched ?st0" and cr: "created (snd ?mp) = created ?st0 @ [specs]"
    and nds: "length nds = length names"
      "\<forall>i<length names. GetNode L 1 (names ! i) = Inr (nds ! i) \<and> i div 3 < length chs"
    and l: "logs (snd ?mp) =
         logs ?st0
         @ [Log Info ''waiting for all nodes to report healthy...'' [], Log Info ''all nodes healthy...'' [],
            Log Info ''waiting for all nodes to report healthy...'' [], Log Info ''all nodes healthy...'' []]
         @ map (\<lambda>i. Log Info ''subnet rpc url''
                  [StringField ''node'' (names ! i),
                   StringField ''url'' (''http://127.0.0.1:'' @ decimal (unat (apiPort (nds ! i))) @ ''/ext/bc/''
                                         @ chs ! (i div 3) @ ''/rpc'')])
             [0..<length names]
         @ [Log Info ''Network will run until you CTRL + C to exit...'' []]
         @ (case sig of None \<Rightarrow> [] | Some p \<Rightarrow> [Log Info ''got OS signal'' [SignalField]])"
    by blast
  obtain rest where rest: "logs (snd ?run) = logs (snd ?mp) @ rest"
    unfolding run using deferred_Stop_logs by blast
  have st0: "launched ?st0 = [(nw, ?wd)]" "created ?st0 = []" "logs ?st0 = []"
    by (simp_all add: initial_def)
  have la': "launched (snd ?run) = [(nw, ?wd)]"
    unfolding run by (simp only: deferred_Stop_fields la st0)
  have cr': "created (snd ?run) = [specs]"
    unfolding run by (simp only: deferred_Stop_fields cr st0 append_Nil)
  have l': "logs (snd ?run) =
         [Log Info ''waiting for all nodes to report healthy...'' [], Log Info ''all nodes healthy...'' [],
          Log Info ''waiting for all nodes to report healthy...'' [], Log Info ''all nodes healthy...'' []]
         @ map (\<lambda>i. Log Info ''subnet rpc url''
                  [StringField ''node'' (names ! i),
                   StringField ''url'' (''http://127.0.0.1:'' @ decimal (unat (apiPort (nds ! i))) @ ''/ext/bc/''
                                         @ chs ! (i div 3) @ ''/rpc'')])
             [0..<length names]
         @ Log Info ''Network will run until you CTRL + C to exit...'' []
           # ((case sig of None \<Rightarrow> [] | Some p \<Rightarrow> [Log Info ''got OS signal'' [SignalField]]) @ rest)"
    unfolding rest l st0 by simp
  show ?thesis
    unfolding S using la' nm cr' cb nds l' by blast
qed

text \<open>
  The nine-node scenario on the example host, step by step: three subnets are asked for,
  the library starts nine nodes, the plugin is copied to each, three blockchains are
  created, and the signal comes while the network runs.
\<close>

lemma demo_await:
  "multi_await Background demo_lib k healthyTimeout st =
     Some (None, say (Log Info ''all nodes healthy...'' [])
                   ((say (Log Info ''waiting for all nodes to report healthy...'' []) st)
                      \<lparr>now := max 5000000000 (now st)\<rparr>))"
  by (simp add: multi_await_def Healthy_def WithTimeout_def healthyTimeout_def demo_lib_def Let_def)

lemma demo_names:
  "length (NodeConfigs nw) = 9 \<Longrightarrow> GetNodeNames demo_lib nw = Inr nine_nodes"
  by (simp add: GetNodeNames_def demo_lib_def nine_nodes_def demo_ports_def upt_rec)

lemma demo_plugins:
  "\<exists>fs'. plugin_loop demo_lib no_faults ''/h/universal-subnet-runner/avalanchego'' ''vm'' nine_nodes demo_fs = (None, fs')"
  by (simp add: nine_nodes_def demo_lib_def copy_defs host_defs)

lemma demo_partition:
  "partition_subnets demo_params nine_nodes 3 =
     Inr [mk_spec demo_params [''node1'', ''node2'', ''node3''],
          mk_spec demo_params [''node4'', ''node5'', ''node6''],
          mk_spec demo_params [''node7'', ''node8'', ''node9'']]"
  by (simp add: partition_subnets_def specs_loop.simps go_slice_def subnetSize_def nine_nodes_def)

lemma demo_chains:
  "CreateBlockchains demo_lib
     [mk_spec demo_params [''node1'', ''node2'', ''node3''],
      mk_spec demo_params [''node4'', ''node5'', ''node6''],
      mk_spec demo_params [''node7'', ''node8'', ''node9'']]
   = Inr [''chain-of-node1'', ''chain-of-node4'', ''chain-of-node7'']"
  by (simp add: demo_lib_def mk_spec_def)

lemma demo_node5:
  "GetNode demo_lib 1 (nine_nodes ! 4) = Inr \<lparr>dataDir = ''/w/node5'', apiPort = 9658\<rparr>"
  by (simp add: nine_nodes_def demo_lib_def demo_ports_def)

lemma demo_urls:
  "\<exists>urls st'. rpc_loop demo_lib (\<lambda>i. i div subnetSize) [''chain-of-node1'', ''chain-of-node4'', ''chain-of-node7''] 0
      nine_nodes [] st = (None, urls, st') \<and> launched st' = launched st \<and> created st' = created st
      \<and> stops st' = stops st"
proof -
  have "\<forall>name\<in>set nine_nodes. \<exists>nd. GetNode demo_lib 1 name = Inr nd"
    by (simp add: nine_nodes_def demo_lib_def demo_ports_def)
  then have g: "\<forall>j<length nine_nodes. \<exists>nd. GetNode demo_lib 1 (nine_nodes ! j) = Inr nd"
    by simp
  have r: "\<forall>j<length nine_nodes. 0 \<le> (0 + int j) div subnetSize
      \<and> (0 + int j) div subnetSize < int (length [''chain-of-node1'', ''chain-of-node4'', ''chain-of-node7''])"
    by (auto simp: nine_nodes_def subnetSize_def)
  show ?thesis
    unfolding rpc_loop_eq [OF g r] by simp
qed

lemma nine_node_run:
  "fst (multi_main demo_lib no_faults no_std_faults (Some Running) demo_params 3 ''/h'' 1700000000 demo_fs Absent 0)
     = Exit 0
   \<and> created (snd (multi_main demo_lib no_faults no_std_faults (Some Running) demo_params 3 ''/h'' 1700000000
        demo_fs Absent 0))
     = [[mk_spec demo_params [''node1'', ''node2'', ''node3''],
         mk_spec demo_params [''node4'', ''node5'', ''node6''],
         mk_spec demo_params [''node7'', ''node8'', ''node9'']]]
   \<and> (\<exists>nw w. launched (snd (multi_main demo_lib no_faults no_std_faults (Some Running) demo_params 3 ''/h''
        1700000000 demo_fs Absent 0)) = [(nw, w)] \<and> length (NodeConfigs nw) = 9)
   \<and> stops (snd (multi_main demo_lib no_faults no_std_faults (Some Running) demo_params 3 ''/h'' 1700000000
        demo_fs Absent 0)) = 1"
proof -
  obtain fs' where pl: "plugin_loop demo_lib no_faults ''/h/universal-subnet-runner/avalanchego'' ''vm'' nine_nodes demo_fs = (None, fs')"
    using demo_plugins by blast
  have r: "unat (requested_nodes 3) = 9" by (simp add: requested_nodes_def subnetSize_def)
  have c: "NewDefaultConfigNNodes demo_lib p (requested_nodes 3) =
      Inr \<lparr>NodeConfigs = map (default_node demo_lib) [0..<9], NetFlags = Map.empty\<rparr>" for p
    by (simp add: NewDefaultConfigNNodes_def r demo_lib_def)
  have n: "NewNetwork demo_lib c w = None" for c w by (simp add: demo_lib_def)
  have s: "Stop demo_lib 0 = None" by (simp add: demo_lib_def)
  have p: "pluginID demo_params = ''vm''" by (simp add: demo_params_def)
  have l: "logger_fails no_std_faults = None" by (simp add: no_std_faults_def)
  let ?st3 = "\<lparr>files = fs', history = Absent, configs = [],
      launched = [(\<lparr>NodeConfigs = map (default_node demo_lib) [0..<9],
                     NetFlags = [''log-level'' \<mapsto> StrV ''INFO'']\<rparr>,
                   ''/h'' @ ''/universal-subnet-runner/networks/'' @ decimal 1700000000 @ ''/nodes'')],
      created = [[mk_spec demo_params [''node1'', ''node2'', ''node3''],
                  mk_spec demo_params [''node4'', ''node5'', ''node6''],
                  mk_spec demo_params [''node7'', ''node8'', ''node9'']]],
      stops = 0, now = 5000000000,
      logs = [Log Info ''waiting for all nodes to report healthy...'' [], Log Info ''all nodes healthy...'' [],
              Log Info ''waiting for all nodes to report healthy...'' [], Log Info ''all nodes healthy...'' []],
      stdout = []\<rparr>"
  obtain urls st' where u: "rpc_loop demo_lib (\<lambda>i. i div subnetSize)
      [''chain-of-node1'', ''chain-of-node4'', ''chain-of-node7''] 0 nine_nodes [] ?st3 = (None, urls, st')"
    "launched st' = launched ?st3" "created st' = created ?st3" "stops st' = stops ?st3"
    using demo_urls [of ?st3] by blast
  show ?thesis
    using u
    by (simp add: multi_main_def multi_run_def multi_provision_def multi_shutdownOnSignal_def deferred_Stop_def
        finish_def initial_def say_def Let_def
        c n s p l demo_await demo_names pl demo_partition demo_chains)
qed

text \<open>
  In that run the line of node index 4 (the ninth line of the log) names the chain of the
  second subnet.
\<close>

theorem rpc_url_per_subnet_witness:
  "fst (multi_main demo_lib no_faults no_std_faults (Some Running) demo_params 3 ''/h'' 1700000000 demo_fs Absent 0)
     = Exit 0
   \<and> logs (snd (multi_main demo_lib no_faults no_std_faults (Some Running) demo_params 3 ''/h'' 1700000000
        demo_fs Absent 0)) ! (4 + 4)
     = Log Info ''subnet rpc url''
         [StringField ''node'' ''node5'', StringField ''url'' ''http://127.0.0.1:9658/ext/bc/chain-of-node4/rpc'']
   \<and> logs (snd (multi_main demo_lib no_faults no_std_faults (Some Running) demo_params 3 ''/h'' 1700000000
        demo_fs Absent 0)) ! (4 + 9)
     = Log Info ''Network will run until you CTRL + C to exit...'' []"
proof -
  let ?S = "snd (multi_main demo_lib no_faults no_std_faults (Some Running) demo_params 3 ''/h'' 1700000000
        demo_fs Absent 0)"
  let ?specs = "[mk_spec demo_params [''node1'', ''node2'', ''node3''],
         mk_spec demo_params [''node4'', ''node5'', ''node6''],
         mk_spec demo_params [''node7'', ''node8'', ''node9'']]"
  from nine_node_run obtain nw0 w0 where
    e: "fst (multi_main demo_lib no_faults no_std_faults (Some Running) demo_params 3 ''/h'' 1700000000 demo_fs
          Absent 0) = Exit 0"
    and c0: "created ?S = [?specs]"
    and l0: "launched ?S = [(nw0, w0)]" "length (NodeConfigs nw0) = 9"
    by blast
  from rpc_url_per_subnet [of demo_lib no_faults no_std_faults "Some Running" demo_params 3 "''/h''" 1700000000
      demo_fs Absent 0] e
  obtain nw workDir names specs chs nds rest where
    la: "launched ?S = [(nw, workDir)]" and nm: "GetNodeNames demo_lib nw = Inr names"
    and cr: "created ?S = [specs]" and cb: "CreateBlockchains demo_lib specs = Inr chs"
    and nd: "\<forall>i<length names. GetNode demo_lib 1 (names ! i) = Inr (nds ! i) \<and> i div 3 < length chs"
    and lg: "logs ?S =
         [Log Info ''waiting for all nodes to report healthy...'' [], Log Info ''all nodes healthy...'' [],
          Log Info ''waiting for all nodes to report healthy...'' [], Log Info ''all nodes healthy...'' []]
         @ map (\<lambda>i. Log Info ''subnet rpc url''
                  [StringField ''node'' (names ! i),
                   StringField ''url'' (''http://127.0.0.1:'' @ decimal (unat (apiPort (nds ! i))) @ ''/ext/bc/''
                                         @ chs ! (i div 3) @ ''/rpc'')])
             [0..<length names]
         @ Log Info ''Network will run until you CTRL + C to exit...'' [] # rest"
    by blast
  have "nw = nw0" using la l0(1) by simp
  then have names: "names = nine_nodes"
    using nm demo_names [OF l0(2)] by simp
  have "specs = ?specs" using cr c0 by simp
  then have chs: "chs = [''chain-of-node1'', ''chain-of-node4'', ''chain-of-node7'']"
    using cb demo_chains by simp
  have len: "length names = 9" by (simp add: names nine_nodes_def)
  have "GetNode demo_lib 1 (names ! 4) = Inr (nds ! 4)"
    using nd len by simp
  then have port: "apiPort (nds ! 4) = 9658"
    using demo_node5 by (simp add: names)
  have d: "decimal 9658 = ''9658''"
    by (simp add: decimal.simps digit_def)
  have n5: "names ! 4 = ''node5''" by (simp add: names nine_nodes_def)
  have u: "logs ?S ! (4 + 4) = Log Info ''subnet rpc url''
         [StringField ''node'' ''node5'', StringField ''url'' ''http://127.0.0.1:9658/ext/bc/chain-of-node4/rpc'']"
    unfolding lg by (simp add: nth_append len port d chs n5)
  have r: "logs ?S ! (4 + 9) = Log Info ''Network will run until you CTRL + C to exit...'' []"
    unfolding lg by (simp add: nth_append len)
  show ?thesis using e u r by blast
qed

section \<open>Every node in one subnet: properties\<close>

lemma multi_provision_effects:
  "launched (snd (multi_provision ctx L fl sig P a bin nw st)) = launched st
   \<and> (created (snd (multi_provision ctx L fl sig P a bin nw st)) = created st
      \<or> (\<exists>names specs. GetNodeNames L nw = Inr names \<and> partition_subnets P names a = Inr specs
            \<and> created (snd (multi_provision ctx L fl sig P a bin nw st)) = created st @ [specs]))"
  unfolding multi_provision_def
  by (auto simp: Let_def split: option.splits sum.splits prod.splits fault.splits
      dest!: multi_await_fields rpc_loop_fields)

lemma multi_run_effects:
  "(launched (snd (multi_run ctx L fl sig P a bin wd st)) = launched st
      \<and> created (snd (multi_run ctx L fl sig P a bin wd st)) = created st)
   \<or> (\<exists>cfg nw. NewDefaultConfigNNodes L (bin @ ''/avalanchego'') (requested_nodes a) = Inr cfg
        \<and> nw = cfg\<lparr>NetFlags := (NetFlags cfg)(''log-level'' \<mapsto> StrV ''INFO'')\<rparr>
        \<and> launched (snd (multi_run ctx L fl sig P a bin wd st)) = launched st @ [(nw, wd)]
        \<and> (created (snd (multi_run ctx L fl sig P a bin wd st)) = created st
           \<or> (\<exists>names specs. GetNodeNames L nw = Inr names \<and> partition_subnets P names a = Inr specs
                 \<and> created (snd (multi_run ctx L fl sig P a bin wd st)) = created st @ [specs])))"
proof (cases "NewDefaultConfigNNodes L (bin @ ''/avalanchego'') (requested_nodes a)")
  case (Inl err)
  then show ?thesis by (simp add: multi_run_def)
next
  case (Inr cfg)
  let ?nw = "cfg\<lparr>NetFlags := (NetFlags cfg)(''log-level'' \<mapsto> StrV ''INFO'')\<rparr>"
  show ?thesis
  proof (cases "NewNetwork L ?nw wd")
    case (Some err)
    with Inr show ?thesis by (simp add: multi_run_def Let_def)
  next
    case None
    let ?st0 = "st\<lparr>launched := launched st @ [(?nw, wd)]\<rparr>"
    have run: "multi_run ctx L fl sig P a bin wd st = deferred_Stop L (multi_provision ctx L fl sig P a bin ?nw ?st0)"
      using Inr None by (simp add: multi_run_def Let_def)
    from multi_provision_effects [of ctx L fl sig P a bin ?nw ?st0]
    show ?thesis
      unfolding run using Inr by (auto simp: deferred_Stop_fields)
  qed
qed

lemma config_length:
  "NewDefaultConfigNNodes L p n = Inr cfg \<Longrightarrow> length (NodeConfigs cfg) = unat n"
  by (auto simp: NewDefaultConfigNNodes_def split: option.splits)

lemma names_length:
  "GetNodeNames L nw = Inr names \<Longrightarrow> length names = length (NodeConfigs nw)"
  by (auto simp: GetNodeNames_def split: option.splits)

lemma multi_main_state:
  "snd (multi_main L fl sf sig P a home unixTime fs h t) =
     (case logger_fails sf of
        Some err \<Rightarrow> (initial fs h t)\<lparr>stdout := stdout (initial fs h t) @ [err]\<rparr>
      | None \<Rightarrow> snd (finish (multi_run Background L fl sig P a (home @ ''/universal-subnet-runner/avalanchego'')
                 (home @ ''/universal-subnet-runner/networks/'' @ decimal unixTime @ ''/nodes'') (initial fs h t))))"
  by (simp add: multi_main_def Let_def split: option.splits)

text \<open>
  C10, as the code has it. In every run of the multi-subnet program a network that is
  started has \<open>uint32(3 * amountOfSubnets)\<close> nodes, which is exactly
  \<open>subnetSize * amountOfSubnets\<close> when the count is not negative and the product is below
  \<open>2^32\<close>. And whenever blockchains are requested, the network has exactly
  \<open>subnetSize * amountOfSubnets\<close> nodes, there are \<open>amountOfSubnets\<close> groups, the groups one
  after the other are the whole node list, and the node at index \<open>k\<close> is member \<open>k mod 3\<close>
  of group \<open>k div 3\<close>: every node is in one group and none is left out.
\<close>

theorem every_node_in_one_subnet:
  "(\<forall>nw w. (nw, w) \<in> set (launched (snd (multi_main L fl sf sig P amountOfSubnets home unixTime fs h t))) \<longrightarrow>
        length (NodeConfigs nw) = unat (requested_nodes amountOfSubnets)
      \<and> (0 \<le> amountOfSubnets \<and> subnetSize * amountOfSubnets < 2 ^ 32 \<longrightarrow>
           int (length (NodeConfigs nw)) = subnetSize * amountOfSubnets))
   \<and> (\<forall>specs \<in> set (created (snd (multi_main L fl sf sig P amountOfSubnets home unixTime fs h t))).
        \<exists>nw w names.
          launched (snd (multi_main L fl sf sig P amountOfSubnets home unixTime fs h t)) = [(nw, w)]
        \<and> GetNodeNames L nw = Inr names
        \<and> length names = length (NodeConfigs nw)
        \<and> int (length names) = subnetSize * amountOfSubnets
        \<and> length specs = nat amountOfSubnets
        \<and> concat (map (\<lambda>s. Participants (SubnetSpec s)) specs) = names
        \<and> (\<forall>k<length names. Participants (SubnetSpec (specs ! (k div 3))) ! (k mod 3) = names ! k))"
proof -
  let ?a = amountOfSubnets
  let ?bin = "home @ ''/universal-subnet-runner/avalanchego''"
  let ?wd = "home @ ''/universal-subnet-runner/networks/'' @ decimal unixTime @ ''/nodes''"
  let ?S = "snd (multi_main L fl sf sig P ?a home unixTime fs h t)"
  let ?R = "snd (multi_run Background L fl sig P ?a ?bin ?wd (initial fs h t))"
  have i0: "launched (initial fs h t) = []" "created (initial fs h t) = []"
    by (simp_all add: initial_def)
  have S: "(launched ?S = [] \<and> created ?S = []) \<or> (launched ?S = launched ?R \<and> created ?S = created ?R)"
    by (cases "logger_fails sf") (simp_all add: multi_main_state i0)
  from multi_run_effects [of Background L fl sig P ?a ?bin ?wd "initial fs h t"]
  have R: "(launched ?R = [] \<and> created ?R = [])
     \<or> (\<exists>cfg nw. NewDefaultConfigNNodes L (?bin @ ''/avalanchego'') (requested_nodes ?a) = Inr cfg
        \<and> nw = cfg\<lparr>NetFlags := (NetFlags cfg)(''log-level'' \<mapsto> StrV ''INFO'')\<rparr>
        \<and> launched ?R = [(nw, ?wd)]
        \<and> (created ?R = []
           \<or> (\<exists>names specs. GetNodeNames L nw = Inr names \<and> partition_subnets P names ?a = Inr specs
                 \<and> created ?R = [specs])))"
    unfolding i0 by simp
  have one: "length (NodeConfigs nw) = unat (requested_nodes ?a)
      \<and> (0 \<le> ?a \<and> subnetSize * ?a < 2 ^ 32 \<longrightarrow> int (length (NodeConfigs nw)) = subnetSize * ?a)"
    if "(nw, w) \<in> set (launched ?S)" for nw w
  proof -
    from that S R obtain cfg where
      c: "NewDefaultConfigNNodes L (?bin @ ''/avalanchego'') (requested_nodes ?a) = Inr cfg"
      and n: "nw = cfg\<lparr>NetFlags := (NetFlags cfg)(''log-level'' \<mapsto> StrV ''INFO'')\<rparr>"
      by auto
    have "length (NodeConfigs nw) = unat (requested_nodes ?a)"
      using config_length [OF c] n by simp
    then show ?thesis using unat_requested_nodes [of ?a] by simp
  qed
  have two: "\<exists>nw w names. launched ?S = [(nw, w)] \<and> GetNodeNames L nw = Inr names
        \<and> length names = length (NodeConfigs nw)
        \<and> int (length names) = subnetSize * ?a
        \<and> length specs = nat ?a
        \<and> concat (map (\<lambda>s. Participants (SubnetSpec s)) specs) = names
        \<and> (\<forall>k<length names. Participants (SubnetSpec (specs ! (k div 3))) ! (k mod 3) = names ! k)"
    if "specs \<in> set (created ?S)" for specs
  proof -
    from that S R obtain cfg nw names where
      c: "NewDefaultConfigNNodes L (?bin @ ''/avalanchego'') (requested_nodes ?a) = Inr cfg"
      and n: "nw = cfg\<lparr>NetFlags := (NetFlags cfg)(''log-level'' \<mapsto> StrV ''INFO'')\<rparr>"
      and la: "launched ?S = [(nw, ?wd)]"
      and nm: "GetNodeNames L nw = Inr names"
      and pt: "partition_subnets P names ?a = Inr specs"
      by auto
    have l1: "length names = length (NodeConfigs nw)" using nm by (rule names_length)
    have l2: "length names = unat (requested_nodes ?a)"
      using l1 config_length [OF c] n by simp
    from partition_subnets_bound [OF pt] have a0: "0 \<le> ?a" and le: "?a * subnetSize \<le> int (length names)"
      by simp_all
    have len: "int (length names) = subnetSize * ?a"
      using requested_nodes_exact [OF a0] le l2 by simp
    then have len3: "length names = nat ?a * 3"
      using a0 by (simp add: subnetSize_def)
    from specs_loop_groups [of subnetSize ?a names P] a0 le pt
    have s: "length specs = nat ?a"
        "\<forall>i<nat ?a. Participants (SubnetSpec (specs ! i)) = take 3 (drop (i * 3) names)"
        "concat (map (\<lambda>s. Participants (SubnetSpec s)) specs) = take (nat ?a * 3) names"
      by (auto simp: subnetSize_def)
    have cat: "concat (map (\<lambda>s. Participants (SubnetSpec s)) specs) = names"
      using s(3) len3 by simp
    have pos: "Participants (SubnetSpec (specs ! (k div 3))) ! (k mod 3) = names ! k" if "k < length names" for k
    proof -
      have "k div 3 < nat ?a" using that len3 by (simp add: less_mult_imp_div_less)
      then have "Participants (SubnetSpec (specs ! (k div 3))) = take 3 (drop (k div 3 * 3) names)"
        using s(2) by simp
      moreover have "k div 3 * 3 + k mod 3 = k" by simp
      ultimately show ?thesis using that by (simp add: nth_append)
    qed
    show ?thesis using la nm l1 len s(1) cat pos by blast
  qed
  show ?thesis using one two by blast
qed

text \<open>
  In the nine-node run: nine nodes are started, three groups are requested, together
  they are the nine names, and the second member of the second group is the fifth node.
\<close>

theorem every_node_in_one_subnet_witness:
  "\<exists>nw w specs.
      launched (snd (multi_main demo_lib no_faults no_std_faults (Some Running) demo_params 3 ''/h'' 1700000000
         demo_fs Absent 0)) = [(nw, w)]
    \<and> length (NodeConfigs nw) = 9
    \<and> created (snd (multi_main demo_lib no_faults no_std_faults (Some Running) demo_params 3 ''/h'' 1700000000
         demo_fs Absent 0)) = [specs]
    \<and> length specs = 3
    \<and> concat (map (\<lambda>s. Participants (SubnetSpec s)) specs) = nine_nodes
    \<and> Participants (SubnetSpec (specs ! 1)) ! 1 = ''node5''"
proof -
  let ?S = "snd (multi_main demo_lib no_faults no_std_faults (Some Running) demo_params 3 ''/h'' 1700000000
        demo_fs Absent 0)"
  from nine_node_run obtain nw0 w0 specs0 where
    l0: "launched ?S = [(nw0, w0)]" and c0: "created ?S = [specs0]"
    by blast
  note run = every_node_in_one_subnet [of demo_lib no_faults no_std_faults "Some Running" demo_params 3 "''/h''"
      1700000000 demo_fs Absent 0]
  from run have one: "\<forall>nw w. (nw, w) \<in> set (launched ?S) \<longrightarrow>
        length (NodeConfigs nw) = unat (requested_nodes 3)
      \<and> (0 \<le> (3::int) \<and> subnetSize * 3 < 2 ^ 32 \<longrightarrow> int (length (NodeConfigs nw)) = subnetSize * 3)"
    by (rule conjunct1)
  from run have two: "\<forall>specs \<in> set (created ?S). \<exists>nw w names.
          launched ?S = [(nw, w)] \<and> GetNodeNames demo_lib nw = Inr names
        \<and> length names = length (NodeConfigs nw)
        \<and> int (length names) = subnetSize * 3
        \<and> length specs = nat 3
        \<and> concat (map (\<lambda>s. Participants (SubnetSpec s)) specs) = names
        \<and> (\<forall>k<length names. Participants (SubnetSpec (specs ! (k div 3))) ! (k mod 3) = names ! k)"
    by (rule conjunct2)
  from one l0 have n9: "length (NodeConfigs nw0) = 9"
    by (simp add: subnetSize_def)
  from two c0 l0 obtain names where
    nm: "GetNodeNames demo_lib nw0 = Inr names" and len: "length specs0 = 3"
    and cat: "concat (map (\<lambda>s. Participants (SubnetSpec s)) specs0) = names"
    and pos: "\<forall>k<length names. Participants (SubnetSpec (specs0 ! (k div 3))) ! (k mod 3) = names ! k"
    by auto
  have names: "names = nine_nodes"
    using nm demo_names [OF n9] by simp
  have "4 < length names" by (simp add: names nine_nodes_def)
  with pos have "Participants (SubnetSpec (specs0 ! (4 div 3))) ! (4 mod 3) = names ! 4"
    by blast
  then have p: "Participants (SubnetSpec (specs0 ! 1)) ! 1 = ''node5''"
    by (simp add: names nine_nodes_def)
  show ?thesis using l0 n9 c0 len cat p names by blast
qed

text \<open>
  C10 as stated ("always exactly \<open>subnetSize * amountOfSubnets\<close>") fails where the
  conversion to \<open>uint32\<close> wraps: for \<open>--amount-of-subnets 1431655766\<close> the program asks for
  2 nodes and the network is started with 2, and for \<open>--amount-of-subnets -1\<close> it asks for
  4294967293.
\<close>

theorem requested_nodes_wrap:
  "unat (requested_nodes 1431655766) = 2
   \<and> int (unat (requested_nodes 1431655766)) \<noteq> subnetSize * 1431655766
   \<and> length (launched (snd (multi_main never_healthy no_faults no_std_faults None demo_params 1431655766 ''/h''
         1700000000 demo_fs Absent 0))) = 1
   \<and> length (NodeConfigs (fst (hd (launched (snd (multi_main never_healthy no_faults no_std_faults None
         demo_params 1431655766 ''/h'' 1700000000 demo_fs Absent 0)))))) = 2
   \<and> unat (requested_nodes (- 1)) = 4294967293"
proof -
  have r: "unat (requested_nodes 1431655766) = 2" "unat (requested_nodes (- 1)) = 4294967293"
    by (simp_all add: requested_nodes_def subnetSize_def)
  have c: "NewDefaultConfigNNodes never_healthy p (requested_nodes 1431655766) =
      Inr \<lparr>NodeConfigs = map (default_node never_healthy) [0..<2], NetFlags = Map.empty\<rparr>" for p
    by (simp add: NewDefaultConfigNNodes_def r never_healthy_def demo_lib_def)
  have n: "NewNetwork never_healthy cfg w = None" "cluster never_healthy k = NeverHealthy" for cfg w k
    by (simp_all add: never_healthy_def demo_lib_def)
  have l: "length (launched (snd (multi_main never_healthy no_faults no_std_faults None demo_params 1431655766 ''/h''
         1700000000 demo_fs Absent 0))) = 1
   \<and> length (NodeConfigs (fst (hd (launched (snd (multi_main never_healthy no_faults no_std_faults None
         demo_params 1431655766 ''/h'' 1700000000 demo_fs Absent 0)))))) = 2"
    by (simp add: multi_main_def multi_run_def multi_provision_def multi_await_def Healthy_def WithTimeout_def
        healthyTimeout_def initial_def Let_def c n no_std_faults_def)
  show ?thesis using r l by (simp add: subnetSize_def)
qed

section \<open>The historical program: properties\<close>

text \<open>
  Go's sums on the ports: with no overflow the signed value of the sum is the sum of the
  values, and at the upper end of \<open>int\<close> the sum wraps to a negative port.
\<close>

lemma sint_add_shift:
  fixes hp :: "64 word"
  assumes "sint hp + 10 * int k < 2 ^ 63"
  shows "sint (hp + 10 * word_of_nat k) = sint hp + 10 * int k"
proof -
  have eq: "hp + 10 * word_of_nat k = word_of_int (sint hp + 10 * int k)"
    by simp
  have lo: "- (2 ^ 63) \<le> sint hp + 10 * int k"
    using sint_ge [of hp] by simp
  have "sint (word_of_int (sint hp + 10 * int k) :: 64 word) = signed_take_bit 63 (sint hp + 10 * int k)"
    using sint_sbintrunc' [of "sint hp + 10 * int k", where ?'a = 64] by simp
  also have "\<dots> = sint hp + 10 * int k"
    using lo assms by (intro signed_take_bit_int_eq_self) simp_all
  finally show ?thesis
    by (simp only: eq)
qed

lemma shift_value:
  assumes "10 * int k < 2 ^ 63"
  shows "sint (defaultShift * word_of_nat k) = 10 * int k"
  using sint_add_shift [of 0 k] assms by (simp add: defaultShift_def)

lemma shift_wraps:
  "sint ((0x7FFFFFFFFFFFFFFF :: 64 word) + defaultShift * word_of_nat 1) = - 9223372036854775799"
  by (simp add: defaultShift_def)

lemma hist_provision_fields:
  "launched (snd (hist_provision L fl sig P b nw st)) = launched st
   \<and> configs (snd (hist_provision L fl sig P b nw st)) = configs st
   \<and> history (snd (hist_provision L fl sig P b nw st)) = history st"
  unfolding hist_provision_def hist_await_def
  by (auto simp: Let_def split: option.splits sum.splits prod.splits fault.splits
      dest!: multi_await_fields rpc_loop_fields)

lemma hist_record_launched [simp]:
  "launched (snd (hist_record L sf shift st)) = launched st"
  by (simp add: hist_record_def Let_def split: sum.splits option.splits write_outcome.splits)

lemma hist_record_stops [simp]:
  "stops (snd (hist_record L sf shift st)) = stops st"
  by (simp add: hist_record_def Let_def split: sum.splits option.splits write_outcome.splits)

lemma hist_run_after_bootstrap:
  assumes "NewDefaultConfig L (binaryPath @ ''/avalanchego'') = Inr nwConfig"
    and "shift_ports (defaultShift * word_of_nat (length (configs st))) (NodeConfigs nwConfig) = Inr shifted"
    and "NewNetwork L \<lparr>NodeConfigs = shifted, NetFlags = (NetFlags nwConfig)(''log-level'' \<mapsto> StrV ''INFO'')\<rparr>
           workDir = None"
  shows "hist_run L fl sf sig P configFilePath binaryPath workDir st =
      deferred_Stop L
        (case hist_record L sf (defaultShift * word_of_nat (length (configs st)))
                (st\<lparr>launched := launched st @
                   [(\<lparr>NodeConfigs = shifted, NetFlags = (NetFlags nwConfig)(''log-level'' \<mapsto> StrV ''INFO'')\<rparr>,
                     workDir)]\<rparr>) of
           (Some err, st1) \<Rightarrow> (Returned (Some err), st1)
         | (None, st1) \<Rightarrow>
             hist_provision L fl sig P binaryPath
               \<lparr>NodeConfigs = shifted, NetFlags = (NetFlags nwConfig)(''log-level'' \<mapsto> StrV ''INFO'')\<rparr> st1)"
  using assms by (simp add: hist_run_def Let_def)

lemma after_record:
  "launched (snd (case r of (Some err, st1) \<Rightarrow> (Returned (Some err), st1)
                          | (None, st1) \<Rightarrow> hist_provision L fl sig P b nw st1)) = launched (snd r)
   \<and> configs (snd (case r of (Some err, st1) \<Rightarrow> (Returned (Some err), st1)
                          | (None, st1) \<Rightarrow> hist_provision L fl sig P b nw st1)) = configs (snd r)
   \<and> history (snd (case r of (Some err, st1) \<Rightarrow> (Returned (Some err), st1)
                          | (None, st1) \<Rightarrow> hist_provision L fl sig P b nw st1)) = history (snd r)
   \<and> (\<forall>e. fst r = Some e \<longrightarrow>
         fst (case r of (Some err, st1) \<Rightarrow> (Returned (Some err), st1)
                      | (None, st1) \<Rightarrow> hist_provision L fl sig P b nw st1) = Returned (Some e))"
  by (cases r) (auto simp: hist_provision_fields split: option.splits)

lemma hist_run_launched:
  assumes "NewDefaultConfig L (binaryPath @ ''/avalanchego'') = Inr nwConfig"
    and "shift_ports (defaultShift * word_of_nat (length (configs st))) (NodeConfigs nwConfig) = Inr shifted"
    and "NewNetwork L \<lparr>NodeConfigs = shifted, NetFlags = (NetFlags nwConfig)(''log-level'' \<mapsto> StrV ''INFO'')\<rparr>
           workDir = None"
  shows "launched (snd (hist_run L fl sf sig P configFilePath binaryPath workDir st)) =
      launched st @
        [(\<lparr>NodeConfigs = shifted, NetFlags = (NetFlags nwConfig)(''log-level'' \<mapsto> StrV ''INFO'')\<rparr>, workDir)]"
  by (simp add: hist_run_after_bootstrap [OF assms] after_record)

lemma shift_node_ok:
  "Flags nc ''http-port'' = Some (IntV hp) \<Longrightarrow> Flags nc ''staking-port'' = Some (IntV sp) \<Longrightarrow>
   shift_node shift nc =
     Inr (nc\<lparr>Flags := (Flags nc)(''http-port'' \<mapsto> IntV (hp + shift), ''staking-port'' \<mapsto> IntV (sp + shift))\<rparr>)"
  by (simp add: shift_node_def)

lemma shift_ports_ok:
  assumes "\<forall>nc\<in>set ncs. \<exists>hp sp. Flags nc ''http-port'' = Some (IntV hp) \<and> Flags nc ''staking-port'' = Some (IntV sp)"
  shows "\<exists>ncs'. shift_ports shift ncs = Inr ncs' \<and> length ncs' = length ncs
     \<and> (\<forall>i<length ncs. \<forall>hp sp.
           Flags (ncs ! i) ''http-port'' = Some (IntV hp) \<and> Flags (ncs ! i) ''staking-port'' = Some (IntV sp)
           \<longrightarrow> Flags (ncs' ! i) ''http-port'' = Some (IntV (hp + shift))
             \<and> Flags (ncs' ! i) ''staking-port'' = Some (IntV (sp + shift)))"
  using assms
proof (induction ncs)
  case Nil
  then show ?case by simp
next
  case (Cons nc rest)
  from Cons.prems obtain hp sp where p: "Flags nc ''http-port'' = Some (IntV hp)" "Flags nc ''staking-port'' = Some (IntV sp)"
    by auto
  from Cons obtain rest' where r: "shift_ports shift rest = Inr rest'" "length rest' = length rest"
    "\<forall>i<length rest. \<forall>hp sp.
           Flags (rest ! i) ''http-port'' = Some (IntV hp) \<and> Flags (rest ! i) ''staking-port'' = Some (IntV sp)
           \<longrightarrow> Flags (rest' ! i) ''http-port'' = Some (IntV (hp + shift))
             \<and> Flags (rest' ! i) ''staking-port'' = Some (IntV (sp + shift))"
    by auto
  let ?nc' = "nc\<lparr>Flags := (Flags nc)(''http-port'' \<mapsto> IntV (hp + shift), ''staking-port'' \<mapsto> IntV (sp + shift))\<rparr>"
  have run: "shift_ports shift (nc # rest) = Inr (?nc' # rest')"
    using shift_node_ok [OF p] r(1) by simp
  have "\<forall>i<length (nc # rest). \<forall>hp sp.
           Flags ((nc # rest) ! i) ''http-port'' = Some (IntV hp) \<and> Flags ((nc # rest) ! i) ''staking-port'' = Some (IntV sp)
           \<longrightarrow> Flags ((?nc' # rest') ! i) ''http-port'' = Some (IntV (hp + shift))
             \<and> Flags ((?nc' # rest') ! i) ''staking-port'' = Some (IntV (sp + shift))"
  proof (intro allI impI)
    fix i hp' sp'
    assume i: "i < length (nc # rest)"
      and f: "Flags ((nc # rest) ! i) ''http-port'' = Some (IntV hp') \<and> Flags ((nc # rest) ! i) ''staking-port'' = Some (IntV sp')"
    show "Flags ((?nc' # rest') ! i) ''http-port'' = Some (IntV (hp' + shift))
             \<and> Flags ((?nc' # rest') ! i) ''staking-port'' = Some (IntV (sp' + shift))"
    proof (cases i)
      case 0
      with f p show ?thesis by simp
    next
      case (Suc j)
      with i f r(3) show ?thesis by simp
    qed
  qed
  with run r(2) show ?case by simp
qed

lemmas model_defs =
  hist_main_def hist_run_def hist_record_def hist_provision_def hist_await_def multi_await_def
  multi_main_def multi_run_def multi_provision_def multi_shutdownOnSignal_def
  deliver_def hist_shutdownOnSignal_def call_Stop_def deferred_Stop_def finish_def say_def initial_def
  Healthy_def WithTimeout_def healthyTimeout_def defaultShift_def subnetSize_def
  NewDefaultConfigNNodes_def GetNodeNames_def
  shift_node_def partition_subnets_def requested_nodes_def mk_spec_def go_index_def go_slice_def rpc_url_def
  copy_def os_Stat_def os_Open_def os_Create_def os_Chmod_def io_Copy_def IsRegular_def Let_def dirname_def

lemmas demo_defs =
  demo_lib_def demo_ports_def demo_node_config_def demo_params_def demo_fs_def plugin_file_def directory_def
  no_faults_def no_std_faults_def nine_nodes_def
  never_healthy_def stopped_while_waiting_def read_only_history_def two_records_def demo_config_def
  locked_history_def no_network_id_def

text \<open>
How often \<open>Stop\<close> was called after a step of \<open>run\<close>.
\<close>

lemma deliver_stops [simp]:
  "stops (deliver sig p L st) = (if sig = Some p then stops st + 1 else stops st)"
  by (simp add: deliver_def hist_shutdownOnSignal_def)

lemma hist_provision_clean:
  assumes "hist_provision L fl sig P b nw st = (Returned None, st')"
  shows "stops st' = stops st + 1"
proof (cases sig)
  case None
  with assms show ?thesis
    unfolding hist_provision_def hist_await_def
    by (auto simp: Let_def split: option.splits sum.splits prod.splits fault.splits)
next
  case (Some ph)
  with assms show ?thesis
    unfolding hist_provision_def hist_await_def
    by (cases ph)
      (auto simp: Let_def split: option.splits sum.splits prod.splits fault.splits
        dest!: multi_await_fields rpc_loop_fields)
qed

text \<open>
  The multi-subnet \<open>run\<close>, whose signal handler does not call \<open>Stop\<close>, has called it
  once when it returns \<open>nil\<close>.
\<close>

lemma multi_provision_stops:
  "stops (snd (multi_provision ctx L fl sig P a b nw st)) = stops st"
  unfolding multi_provision_def multi_shutdownOnSignal_def
  by (auto simp: Let_def split: option.splits sum.splits prod.splits fault.splits
      dest!: multi_await_fields rpc_loop_fields)

lemma multi_run_stops_once:
  assumes "fst (multi_run ctx L fl sig P a b w st) = Returned None"
  shows "stops (snd (multi_run ctx L fl sig P a b w st)) = stops st + 1"
  using assms
  by (auto simp: multi_run_def deferred_Stop_def multi_provision_stops Let_def
      split: sum.splits option.splits outcome.splits)

text \<open>
  C1. In the historical program \<open>Stop\<close> is not called exactly once on every run. Both
  the signal handler \<open>shutdownOnSignal\<close> and the function deferred in \<open>run\<close> call it: every
  call of \<open>run\<close> that returns \<open>nil\<close>, that is every normal shutdown, has called \<open>Stop\<close>
  exactly twice, whatever the library and the host do.
\<close>

theorem clean_shutdown_stops_twice:
  assumes "fst (hist_run L fl sf sig P configFilePath binaryPath workDir st) = Returned None"
  shows "stops (snd (hist_run L fl sf sig P configFilePath binaryPath workDir st)) = stops st + 2"
proof -
  from assms obtain nwConfig shifted where
    ok: "NewDefaultConfig L (binaryPath @ ''/avalanchego'') = Inr nwConfig"
      "shift_ports (defaultShift * word_of_nat (length (configs st))) (NodeConfigs nwConfig) = Inr shifted"
      "NewNetwork L \<lparr>NodeConfigs = shifted, NetFlags = (NetFlags nwConfig)(''log-level'' \<mapsto> StrV ''INFO'')\<rparr> workDir = None"
    by (auto simp: hist_run_def Let_def split: sum.splits option.splits)
  let ?nw = "\<lparr>NodeConfigs = shifted, NetFlags = (NetFlags nwConfig)(''log-level'' \<mapsto> StrV ''INFO'')\<rparr>"
  let ?st0 = "st\<lparr>launched := launched st @ [(?nw, workDir)]\<rparr>"
  let ?rec = "hist_record L sf (defaultShift * word_of_nat (length (configs st))) ?st0"
  let ?inner = "case ?rec of (Some err, st1) \<Rightarrow> (Returned (Some err), st1)
                          | (None, st1) \<Rightarrow> hist_provision L fl sig P binaryPath ?nw st1"
  have run: "hist_run L fl sf sig P configFilePath binaryPath workDir st = deferred_Stop L ?inner"
    using ok by (simp add: hist_run_def Let_def)
  have out: "fst ?inner = Returned None"
    using assms unfolding run by (auto simp: deferred_Stop_def split: outcome.splits)
  then obtain st1 where r: "?rec = (None, st1)"
    by (cases ?rec) (auto split: option.splits)
  have s1: "stops st1 = stops st"
    using hist_record_stops [of L sf "defaultShift * word_of_nat (length (configs st))" ?st0] r by simp
  from out r obtain st' where p: "hist_provision L fl sig P binaryPath ?nw st1 = (Returned None, st')"
    by (cases "hist_provision L fl sig P binaryPath ?nw st1") simp
  have "stops st' = stops st + 1"
    using hist_provision_clean [OF p] s1 by simp
  then show ?thesis
    unfolding run using r p by (simp add: deferred_Stop_def)
qed

text \<open>
  On the example host: a normal shutdown (the signal comes while the network runs)
  ends with exit code 0 after two calls of \<open>Stop\<close>; a signal during the first health
  wait, after which the health check fails, ends with exit code 1 after two calls; the
  same failure with no signal gives one call.
\<close>

theorem clean_shutdown_stops_twice_witness:
  "fst (hist_run demo_lib no_faults no_std_faults (Some Running) demo_params
         ''/h/universal-subnet-runner/config.json'' ''/h/universal-subnet-runner/avalanchego'' ''/w''
         (initial demo_fs Absent 0)) = Returned None
   \<and> stops (snd (hist_run demo_lib no_faults no_std_faults (Some Running) demo_params
         ''/h/universal-subnet-runner/config.json'' ''/h/universal-subnet-runner/avalanchego'' ''/w''
         (initial demo_fs Absent 0))) = 2
   \<and> fst (hist_main demo_lib no_faults no_std_faults (Some Running) demo_params ''/h'' 1700000000
         demo_fs Absent 0) = Exit 0
   \<and> stops (snd (hist_main demo_lib no_faults no_std_faults (Some Running) demo_params ''/h'' 1700000000
         demo_fs Absent 0)) = 2
   \<and> fst (hist_main stopped_while_waiting no_faults no_std_faults (Some Health1) demo_params ''/h'' 1700000000
         demo_fs Absent 0) = Exit 1
   \<and> stops (snd (hist_main stopped_while_waiting no_faults no_std_faults (Some Health1) demo_params ''/h''
         1700000000 demo_fs Absent 0)) = 2
   \<and> stops (snd (hist_main stopped_while_waiting no_faults no_std_faults None demo_params ''/h'' 1700000000
         demo_fs Absent 0)) = 1"
proof -
  have e: "fst (hist_run demo_lib no_faults no_std_faults (Some Running) demo_params
         ''/h/universal-subnet-runner/config.json'' ''/h/universal-subnet-runner/avalanchego'' ''/w''
         (initial demo_fs Absent 0)) = Returned None"
    by (simp add: model_defs demo_defs upt_rec)
  have m: "fst (hist_main demo_lib no_faults no_std_faults (Some Running) demo_params ''/h'' 1700000000
         demo_fs Absent 0) = Exit 0
   \<and> stops (snd (hist_main demo_lib no_faults no_std_faults (Some Running) demo_params ''/h'' 1700000000
         demo_fs Absent 0)) = 2
   \<and> fst (hist_main stopped_while_waiting no_faults no_std_faults (Some Health1) demo_params ''/h'' 1700000000
         demo_fs Absent 0) = Exit 1
   \<and> stops (snd (hist_main stopped_while_waiting no_faults no_std_faults (Some Health1) demo_params ''/h''
         1700000000 demo_fs Absent 0)) = 2
   \<and> stops (snd (hist_main stopped_while_waiting no_faults no_std_faults None demo_params ''/h'' 1700000000
         demo_fs Absent 0)) = 1"
    by (simp add: model_defs demo_defs upt_rec)
  from clean_shutdown_stops_twice [OF e] have "stops (snd (hist_run demo_lib no_faults no_std_faults
         (Some Running) demo_params ''/h/universal-subnet-runner/config.json''
         ''/h/universal-subnet-runner/avalanchego'' ''/w'' (initial demo_fs Absent 0))) = 2"
    by (simp add: initial_def)
  with e m show ?thesis by simp
qed

text \<open>
  C7. The process exits with 1, after a log line at level fatal, when \<open>run\<close> returns an
  error, and with 0 when \<open>run\<close> returns \<open>nil\<close>. But a history file that cannot be read
  (whatever error \<open>os.ReadFile\<close> returns) or decoded makes \<open>main\<close> log the error and
  return, and the exit code is 0, whatever the library, the host and the flags are.
\<close>

theorem history_error_exits_zero:
  "fst (hist_main L fl no_std_faults sig P home unixTime fs (Malformed err') t) = Exit 0
   \<and> logs (snd (hist_main L fl no_std_faults sig P home unixTime fs (Malformed err') t))
     = [Log Error ''Error unmarshalling JSON:'' [ErrorField err']]
   \<and> fst (hist_main L fl no_std_faults sig P home unixTime fs (Unreadable err) t) = Exit 0
   \<and> logs (snd (hist_main L fl no_std_faults sig P home unixTime fs (Unreadable err) t))
     = [Log Error ''Error reading file:'' [ErrorField err]]
   \<and> fst (finish (Returned (Some e), st)) = Exit 1
   \<and> logs (snd (finish (Returned (Some e), st))) = logs st @ [Log Fatal ''fatal error'' [ErrorField e]]
   \<and> fst (finish (Returned None, st)) = Exit 0"
  by (simp add: hist_main_def no_std_faults_def initial_def say_def finish_def Let_def)

text \<open>
  C3, as the code has it. The shift is ten times the number of records loaded from the
  history file (none when the file is absent), and the network is started with that
  shift added to the \<open>http-port\<close> and the \<open>staking-port\<close> of every node, in Go's 64-bit
  arithmetic: where the sum does not overflow, the new port's value is the old one plus
  \<open>10 * k\<close>. When the file exists but cannot be read or decoded, no network is started:
  \<open>main\<close> logs the error and ends.
\<close>

theorem port_shift_from_history:
  assumes "logger_fails sf = None"
  shows "((h = Absent \<and> k = 0 \<or> h = Stored cs \<and> k = length cs)
        \<and> NewDefaultConfig L (home @ ''/universal-subnet-runner/avalanchego/avalanchego'') = Inr nwConfig
        \<and> (\<forall>nc\<in>set (NodeConfigs nwConfig). \<exists>hp sp.
              Flags nc ''http-port'' = Some (IntV hp) \<and> Flags nc ''staking-port'' = Some (IntV sp))
        \<and> (\<forall>c w. NewNetwork L c w = None)
      \<longrightarrow> (\<exists>c w. launched (snd (hist_main L fl sf sig P home unixTime fs h t)) = [(c, w)]
            \<and> length (NodeConfigs c) = length (NodeConfigs nwConfig)
            \<and> (\<forall>i<length (NodeConfigs nwConfig). \<forall>hp sp.
                  Flags (NodeConfigs nwConfig ! i) ''http-port'' = Some (IntV hp)
                  \<and> Flags (NodeConfigs nwConfig ! i) ''staking-port'' = Some (IntV sp)
                  \<longrightarrow> Flags (NodeConfigs c ! i) ''http-port'' = Some (IntV (hp + 10 * word_of_nat k))
                    \<and> Flags (NodeConfigs c ! i) ''staking-port'' = Some (IntV (sp + 10 * word_of_nat k))
                    \<and> (sint hp + 10 * int k < 2 ^ 63 \<longrightarrow> sint (hp + 10 * word_of_nat k) = sint hp + 10 * int k)
                    \<and> (sint sp + 10 * int k < 2 ^ 63 \<longrightarrow> sint (sp + 10 * word_of_nat k) = sint sp + 10 * int k))))
     \<and> ((\<exists>e. h = Unreadable e) \<or> (\<exists>e. h = Malformed e)
      \<longrightarrow> launched (snd (hist_main L fl sf sig P home unixTime fs h t)) = []
        \<and> (\<exists>m e. logs (snd (hist_main L fl sf sig P home unixTime fs h t)) = [Log Error m [ErrorField e]]))"
proof -
  have bad: "launched (snd (hist_main L fl sf sig P home unixTime fs h t)) = []
        \<and> (\<exists>m e. logs (snd (hist_main L fl sf sig P home unixTime fs h t)) = [Log Error m [ErrorField e]])"
    if "(\<exists>e. h = Unreadable e) \<or> (\<exists>e. h = Malformed e)"
    using that assms by (auto simp: hist_main_def initial_def say_def Let_def)
  have good: "\<exists>c w. launched (snd (hist_main L fl sf sig P home unixTime fs h t)) = [(c, w)]
            \<and> length (NodeConfigs c) = length (NodeConfigs nwConfig)
            \<and> (\<forall>i<length (NodeConfigs nwConfig). \<forall>hp sp.
                  Flags (NodeConfigs nwConfig ! i) ''http-port'' = Some (IntV hp)
                  \<and> Flags (NodeConfigs nwConfig ! i) ''staking-port'' = Some (IntV sp)
                  \<longrightarrow> Flags (NodeConfigs c ! i) ''http-port'' = Some (IntV (hp + 10 * word_of_nat k))
                    \<and> Flags (NodeConfigs c ! i) ''staking-port'' = Some (IntV (sp + 10 * word_of_nat k))
                    \<and> (sint hp + 10 * int k < 2 ^ 63 \<longrightarrow> sint (hp + 10 * word_of_nat k) = sint hp + 10 * int k)
                    \<and> (sint sp + 10 * int k < 2 ^ 63 \<longrightarrow> sint (sp + 10 * word_of_nat k) = sint sp + 10 * int k))"
    if a: "(h = Absent \<and> k = 0 \<or> h = Stored cs \<and> k = length cs)
        \<and> NewDefaultConfig L (home @ ''/universal-subnet-runner/avalanchego/avalanchego'') = Inr nwConfig
        \<and> (\<forall>nc\<in>set (NodeConfigs nwConfig). \<exists>hp sp.
              Flags nc ''http-port'' = Some (IntV hp) \<and> Flags nc ''staking-port'' = Some (IntV sp))
        \<and> (\<forall>c w. NewNetwork L c w = None)"
  proof -
    let ?bin = "home @ ''/universal-subnet-runner/avalanchego''"
    let ?cfgp = "home @ ''/universal-subnet-runner/config.json''"
    let ?wd = "home @ ''/universal-subnet-runner/networks/'' @ decimal unixTime @ ''/nodes''"
    let ?st = "(initial fs h t)\<lparr>configs := (case h of Stored cs' \<Rightarrow> cs' | _ \<Rightarrow> [])\<rparr>"
    have k: "length (configs ?st) = k"
      using a by auto
    have main: "hist_main L fl sf sig P home unixTime fs h t = finish (hist_run L fl sf sig P ?cfgp ?bin ?wd ?st)"
      using a assms by (auto simp: hist_main_def initial_def Let_def)
    from shift_ports_ok [of "NodeConfigs nwConfig" "defaultShift * word_of_nat (length (configs ?st))"] a
    obtain shifted where s: "shift_ports (defaultShift * word_of_nat (length (configs ?st))) (NodeConfigs nwConfig) = Inr shifted"
        "length shifted = length (NodeConfigs nwConfig)"
        "\<forall>i<length (NodeConfigs nwConfig). \<forall>hp sp.
             Flags (NodeConfigs nwConfig ! i) ''http-port'' = Some (IntV hp)
             \<and> Flags (NodeConfigs nwConfig ! i) ''staking-port'' = Some (IntV sp)
             \<longrightarrow> Flags (shifted ! i) ''http-port'' = Some (IntV (hp + defaultShift * word_of_nat (length (configs ?st))))
               \<and> Flags (shifted ! i) ''staking-port'' = Some (IntV (sp + defaultShift * word_of_nat (length (configs ?st))))"
      by blast
    let ?cfg = "\<lparr>NodeConfigs = shifted, NetFlags = (NetFlags nwConfig)(''log-level'' \<mapsto> StrV ''INFO'')\<rparr>"
    have nc: "NewDefaultConfig L (?bin @ ''/avalanchego'') = Inr nwConfig"
      using a by simp
    have nn: "NewNetwork L ?cfg ?wd = None"
      using a by simp
    have "launched (snd (hist_run L fl sf sig P ?cfgp ?bin ?wd ?st)) = launched ?st @ [(?cfg, ?wd)]"
      using nc s(1) nn by (rule hist_run_launched)
    then have "launched (snd (hist_main L fl sf sig P home unixTime fs h t)) = [(?cfg, ?wd)]"
      using main by (simp add: initial_def)
    moreover have "\<forall>i<length (NodeConfigs nwConfig). \<forall>hp sp.
             Flags (NodeConfigs nwConfig ! i) ''http-port'' = Some (IntV hp)
             \<and> Flags (NodeConfigs nwConfig ! i) ''staking-port'' = Some (IntV sp)
             \<longrightarrow> Flags (NodeConfigs ?cfg ! i) ''http-port'' = Some (IntV (hp + 10 * word_of_nat k))
               \<and> Flags (NodeConfigs ?cfg ! i) ''staking-port'' = Some (IntV (sp + 10 * word_of_nat k))
               \<and> (sint hp + 10 * int k < 2 ^ 63 \<longrightarrow> sint (hp + 10 * word_of_nat k) = sint hp + 10 * int k)
               \<and> (sint sp + 10 * int k < 2 ^ 63 \<longrightarrow> sint (sp + 10 * word_of_nat k) = sint sp + 10 * int k)"
      using s(3) sint_add_shift unfolding k by (simp add: defaultShift_def)
    ultimately show ?thesis
      using s(2) by (intro exI [of _ ?cfg] exI [of _ ?wd]) simp
  qed
  show ?thesis using bad good by blast
qed

text \<open>
  On the example host with two records in the history: the ports 9650 and 9653 become
  9670 and 9673; with a history file that cannot be opened nothing is started.
\<close>

theorem port_shift_from_history_witness:
  "(\<exists>c w. launched (snd (hist_main demo_lib no_faults no_std_faults (Some Running) demo_params ''/h''
              1700000000 demo_fs (Stored two_records) 0)) = [(c, w)]
      \<and> Flags (NodeConfigs c ! 0) ''http-port'' = Some (IntV 9670)
      \<and> Flags (NodeConfigs c ! 1) ''staking-port'' = Some (IntV 9673))
   \<and> sint ((9650 :: 64 word) + 10 * word_of_nat 2) = 9650 + 10 * 2
   \<and> launched (snd (hist_main demo_lib no_faults no_std_faults (Some Running) demo_params ''/h''
              1700000000 demo_fs locked_history 0)) = []"
proof -
  let ?L = "demo_lib"
  have lg: "logger_fails no_std_faults = None" by (simp add: no_std_faults_def)
  have nc: "NewDefaultConfig ?L (''/h'' @ ''/universal-subnet-runner/avalanchego/avalanchego'') = Inr demo_config"
    by (simp add: demo_lib_def demo_config_def)
  have fl: "\<forall>nc\<in>set (NodeConfigs demo_config). \<exists>hp sp.
      Flags nc ''http-port'' = Some (IntV hp) \<and> Flags nc ''staking-port'' = Some (IntV sp)"
    by (simp add: demo_config_def demo_node_config_def)
  have nn: "\<forall>c w. NewNetwork ?L c w = None" by (simp add: demo_lib_def)
  have k: "Stored two_records = Stored two_records \<and> (2::nat) = length two_records"
    by (simp add: two_records_def)
  from port_shift_from_history [OF lg, where h = "Stored two_records" and k = 2 and cs = two_records
      and L = ?L and home = "''/h''" and nwConfig = demo_config and fl = no_faults and sig = "Some Running"
      and P = demo_params and unixTime = 1700000000 and fs = demo_fs and t = 0] nc fl nn k
  obtain c w where r:
      "launched (snd (hist_main ?L no_faults no_std_faults (Some Running) demo_params ''/h''
              1700000000 demo_fs (Stored two_records) 0)) = [(c, w)]"
      "\<forall>i<length (NodeConfigs demo_config). \<forall>hp sp.
          Flags (NodeConfigs demo_config ! i) ''http-port'' = Some (IntV hp)
          \<and> Flags (NodeConfigs demo_config ! i) ''staking-port'' = Some (IntV sp)
          \<longrightarrow> Flags (NodeConfigs c ! i) ''http-port'' = Some (IntV (hp + 10 * word_of_nat 2))
            \<and> Flags (NodeConfigs c ! i) ''staking-port'' = Some (IntV (sp + 10 * word_of_nat 2))
            \<and> (sint hp + 10 * int 2 < 2 ^ 63 \<longrightarrow> sint (hp + 10 * word_of_nat 2) = sint hp + 10 * int 2)
            \<and> (sint sp + 10 * int 2 < 2 ^ 63 \<longrightarrow> sint (sp + 10 * word_of_nat 2) = sint sp + 10 * int 2)"
    by blast
  have p0: "Flags (NodeConfigs demo_config ! 0) ''http-port'' = Some (IntV 9650)
      \<and> Flags (NodeConfigs demo_config ! 0) ''staking-port'' = Some (IntV 9651)"
    by (simp add: demo_config_def demo_node_config_def)
  have p1: "Flags (NodeConfigs demo_config ! 1) ''http-port'' = Some (IntV 9652)
      \<and> Flags (NodeConfigs demo_config ! 1) ''staking-port'' = Some (IntV 9653)"
    by (simp add: demo_config_def demo_node_config_def)
  have l: "0 < length (NodeConfigs demo_config)" "1 < length (NodeConfigs demo_config)"
    by (simp_all add: demo_config_def)
  from r(2) l(1) p0 have a0: "Flags (NodeConfigs c ! 0) ''http-port'' = Some (IntV (9650 + 10 * word_of_nat 2))
      \<and> (sint (9650 :: 64 word) + 10 * int 2 < 2 ^ 63 \<longrightarrow>
           sint ((9650 :: 64 word) + 10 * word_of_nat 2) = sint (9650 :: 64 word) + 10 * int 2)"
    by blast
  from r(2) l(2) p1 have a1: "Flags (NodeConfigs c ! 1) ''staking-port'' = Some (IntV (9653 + 10 * word_of_nat 2))"
    by blast
  from port_shift_from_history [OF lg, where h = locked_history and L = ?L and home = "''/h''" and fl = no_faults
      and sig = "Some Running" and P = demo_params and unixTime = 1700000000 and fs = demo_fs and t = 0]
  have u: "launched (snd (hist_main ?L no_faults no_std_faults (Some Running) demo_params ''/h''
              1700000000 demo_fs locked_history 0)) = []"
    by (simp add: locked_history_def)
  show ?thesis using r(1) a0 a1 u by auto
qed

text \<open>
  C3 as stated lets an unreadable history file count as no history, "so the shift is
  0 and the run proceeds". On the code an unreadable file starts no network, where an
  absent one starts it.
\<close>

theorem unreadable_history_starts_no_run:
  "fst (hist_main demo_lib no_faults no_std_faults (Some Running) demo_params ''/h'' 1700000000 demo_fs
        locked_history 0) = Exit 0
   \<and> launched (snd (hist_main demo_lib no_faults no_std_faults (Some Running) demo_params ''/h''
        1700000000 demo_fs locked_history 0)) = []
   \<and> length (launched (snd (hist_main demo_lib no_faults no_std_faults (Some Running) demo_params ''/h''
        1700000000 demo_fs Absent 0))) = 1"
proof -
  have lg: "logger_fails no_std_faults = None" by (simp add: no_std_faults_def)
  have a: "fst (hist_main demo_lib no_faults no_std_faults (Some Running) demo_params ''/h'' 1700000000 demo_fs
        locked_history 0) = Exit 0
   \<and> launched (snd (hist_main demo_lib no_faults no_std_faults (Some Running) demo_params ''/h''
        1700000000 demo_fs locked_history 0)) = []"
    by (simp add: hist_main_def locked_history_def lg initial_def say_def Let_def)
  have nc: "NewDefaultConfig demo_lib (''/h/universal-subnet-runner/avalanchego'' @ ''/avalanchego'') = Inr demo_config"
    by (simp add: demo_lib_def demo_config_def)
  have fl: "\<forall>nc\<in>set (NodeConfigs demo_config). \<exists>hp sp.
      Flags nc ''http-port'' = Some (IntV hp) \<and> Flags nc ''staking-port'' = Some (IntV sp)"
    by (simp add: demo_config_def demo_node_config_def)
  from shift_ports_ok [OF fl, of "defaultShift * word_of_nat (length (configs (initial demo_fs Absent 0)))"]
  obtain shifted where sh: "shift_ports (defaultShift * word_of_nat (length (configs (initial demo_fs Absent 0))))
      (NodeConfigs demo_config) = Inr shifted"
    by blast
  have nn: "NewNetwork demo_lib c w = None" for c w by (simp add: demo_lib_def)
  have "length (launched (snd (hist_run demo_lib no_faults no_std_faults (Some Running) demo_params
      ''/h/universal-subnet-runner/config.json'' ''/h/universal-subnet-runner/avalanchego''
      (''/h/universal-subnet-runner/networks/'' @ decimal 1700000000 @ ''/nodes'') (initial demo_fs Absent 0)))) = 1"
    unfolding hist_run_launched [OF nc sh nn] by (simp add: initial_def)
  then have b: "length (launched (snd (hist_main demo_lib no_faults no_std_faults (Some Running) demo_params ''/h''
        1700000000 demo_fs Absent 0))) = 1"
    by (simp add: hist_main_def lg Let_def) (simp add: initial_def)
  show ?thesis using a b by simp
qed

text \<open>
  C8, as the code has it. After a bootstrap that succeeded (the default configuration
  was obtained, the ports were shifted and the network was started), when the network's
  ID is obtained exactly one record, with this run's shift, is appended after the
  records already there; and when the encoding and the write succeed, the history file
  holds that full list, the earlier records unchanged in front. When \<open>GetNetworkID\<close>,
  \<open>MarshalIndent\<close> or \<open>WriteFile\<close> fails, \<open>run\<close> returns that error; the file is as it
  was unless the write itself failed after the file was opened.
\<close>

theorem history_appended:
  assumes "NewDefaultConfig L (binaryPath @ ''/avalanchego'') = Inr nwConfig"
    and "shift_ports (defaultShift * word_of_nat (length (configs st))) (NodeConfigs nwConfig) = Inr shifted"
    and "NewNetwork L \<lparr>NodeConfigs = shifted, NetFlags = (NetFlags nwConfig)(''log-level'' \<mapsto> StrV ''INFO'')\<rparr>
           workDir = None"
  shows "(\<forall>nid. GetNetworkID L = Inr nid \<longrightarrow>
            configs (snd (hist_run L fl sf sig P configFilePath binaryPath workDir st))
              = configs st @ [\<lparr>NetworkID = nid, PortShifting = 10 * word_of_nat (length (configs st))\<rparr>]
          \<and> (marshal_fails sf = None \<and> write_file sf = WriteOk \<longrightarrow>
               history (snd (hist_run L fl sf sig P configFilePath binaryPath workDir st))
                 = Stored (configs st @ [\<lparr>NetworkID = nid, PortShifting = 10 * word_of_nat (length (configs st))\<rparr>]))
          \<and> (\<forall>e. marshal_fails sf = Some e \<longrightarrow>
               fst (hist_run L fl sf sig P configFilePath binaryPath workDir st) = Returned (Some e)
             \<and> history (snd (hist_run L fl sf sig P configFilePath binaryPath workDir st)) = history st)
          \<and> (\<forall>e. marshal_fails sf = None \<and> write_file sf = OpenFailed e \<longrightarrow>
               fst (hist_run L fl sf sig P configFilePath binaryPath workDir st) = Returned (Some e)
             \<and> history (snd (hist_run L fl sf sig P configFilePath binaryPath workDir st)) = history st)
          \<and> (\<forall>e. marshal_fails sf = None \<and> write_file sf = WriteFailed e \<longrightarrow>
               fst (hist_run L fl sf sig P configFilePath binaryPath workDir st) = Returned (Some e)))
     \<and> (\<forall>e. GetNetworkID L = Inl e \<longrightarrow>
            fst (hist_run L fl sf sig P configFilePath binaryPath workDir st) = Returned (Some e)
          \<and> configs (snd (hist_run L fl sf sig P configFilePath binaryPath workDir st)) = configs st
          \<and> history (snd (hist_run L fl sf sig P configFilePath binaryPath workDir st)) = history st)"
proof -
  let ?shift = "defaultShift * word_of_nat (length (configs st))"
  let ?nw = "\<lparr>NodeConfigs = shifted, NetFlags = (NetFlags nwConfig)(''log-level'' \<mapsto> StrV ''INFO'')\<rparr>"
  let ?rec = "hist_record L sf ?shift (st\<lparr>launched := launched st @ [(?nw, workDir)]\<rparr>)"
  let ?run = "hist_run L fl sf sig P configFilePath binaryPath workDir st"
  note after = after_record [where r = ?rec and L = L and fl = fl and sig = sig and P = P and b = binaryPath
      and nw = ?nw]
  have c: "configs (snd ?run) = configs (snd ?rec)"
    and h: "history (snd ?run) = history (snd ?rec)"
    and f: "fst ?rec = Some e \<Longrightarrow> fst ?run = Returned (Some e)" for e
    using after by (simp_all add: hist_run_after_bootstrap [OF assms])
  let ?new = "\<lambda>nid. \<lparr>NetworkID = nid, PortShifting = 10 * word_of_nat (length (configs st))\<rparr>"
  have no_id: "fst ?rec = Some e \<and> configs (snd ?rec) = configs st \<and> history (snd ?rec) = history st"
    if "GetNetworkID L = Inl e" for e
    using that by (simp add: hist_record_def)
  have appended: "configs (snd ?rec) = configs st @ [?new nid]" if "GetNetworkID L = Inr nid" for nid
    using that by (simp add: hist_record_def Let_def defaultShift_def split: option.splits write_outcome.splits)
  have written: "history (snd ?rec) = Stored (configs st @ [?new nid])"
    if "GetNetworkID L = Inr nid" "marshal_fails sf = None" "write_file sf = WriteOk" for nid
    using that by (simp add: hist_record_def Let_def defaultShift_def)
  have no_encoding: "fst ?rec = Some e \<and> history (snd ?rec) = history st"
    if "GetNetworkID L = Inr nid" "marshal_fails sf = Some e" for nid e
    using that by (simp add: hist_record_def Let_def)
  have no_open: "fst ?rec = Some e \<and> history (snd ?rec) = history st"
    if "GetNetworkID L = Inr nid" "marshal_fails sf = None" "write_file sf = OpenFailed e" for nid e
    using that by (simp add: hist_record_def Let_def)
  have no_write: "fst ?rec = Some e"
    if "GetNetworkID L = Inr nid" "marshal_fails sf = None" "write_file sf = WriteFailed e" for nid e
    using that by (simp add: hist_record_def Let_def)
  show ?thesis
    unfolding c h
    using f no_id appended written no_encoding no_open no_write by blast
qed

text \<open>
  On the example host with two records: the third record, with shift 20, is appended and
  written; with a library that gives no network ID, and with a history file that cannot
  be opened for writing, \<open>run\<close> returns the error.
\<close>

theorem history_appended_witness:
  "configs (snd (hist_run demo_lib no_faults no_std_faults (Some Running) demo_params
       ''/h/universal-subnet-runner/config.json'' ''/h/universal-subnet-runner/avalanchego'' ''/w''
       ((initial demo_fs (Stored two_records) 0)\<lparr>configs := two_records\<rparr>)))
     = two_records @ [\<lparr>NetworkID = 1337, PortShifting = 20\<rparr>]
   \<and> history (snd (hist_run demo_lib no_faults no_std_faults (Some Running) demo_params
       ''/h/universal-subnet-runner/config.json'' ''/h/universal-subnet-runner/avalanchego'' ''/w''
       ((initial demo_fs (Stored two_records) 0)\<lparr>configs := two_records\<rparr>)))
     = Stored (two_records @ [\<lparr>NetworkID = 1337, PortShifting = 20\<rparr>])
   \<and> fst (hist_run no_network_id no_faults no_std_faults (Some Running) demo_params
       ''/h/universal-subnet-runner/config.json'' ''/h/universal-subnet-runner/avalanchego'' ''/w''
       ((initial demo_fs (Stored two_records) 0)\<lparr>configs := two_records\<rparr>))
     = Returned (Some (LibError ''network stopped''))
   \<and> fst (hist_run demo_lib no_faults read_only_history (Some Running) demo_params
       ''/h/universal-subnet-runner/config.json'' ''/h/universal-subnet-runner/avalanchego'' ''/w''
       ((initial demo_fs (Stored two_records) 0)\<lparr>configs := two_records\<rparr>))
     = Returned (Some (PathError ''open'' ''/h/universal-subnet-runner/config.json''))"
proof -
  let ?st = "(initial demo_fs (Stored two_records) 0)\<lparr>configs := two_records\<rparr>"
  have nc: "NewDefaultConfig demo_lib (''/h/universal-subnet-runner/avalanchego'' @ ''/avalanchego'') = Inr demo_config"
    "NewDefaultConfig no_network_id (''/h/universal-subnet-runner/avalanchego'' @ ''/avalanchego'') = Inr demo_config"
    by (simp_all add: no_network_id_def demo_lib_def demo_config_def)
  have fl: "\<forall>nc\<in>set (NodeConfigs demo_config). \<exists>hp sp.
      Flags nc ''http-port'' = Some (IntV hp) \<and> Flags nc ''staking-port'' = Some (IntV sp)"
    by (simp add: demo_config_def demo_node_config_def)
  from shift_ports_ok [OF fl, of "defaultShift * word_of_nat (length (configs ?st))"]
  obtain shifted where sh: "shift_ports (defaultShift * word_of_nat (length (configs ?st))) (NodeConfigs demo_config) = Inr shifted"
    by blast
  have nn: "NewNetwork demo_lib c w = None" "NewNetwork no_network_id c w = None" for c w
    by (simp_all add: no_network_id_def demo_lib_def)
  have id: "GetNetworkID demo_lib = Inr 1337" "GetNetworkID no_network_id = Inl (LibError ''network stopped'')"
    by (simp_all add: no_network_id_def demo_lib_def)
  have ok: "marshal_fails no_std_faults = None \<and> write_file no_std_faults = WriteOk"
    "marshal_fails read_only_history = None
     \<and> write_file read_only_history = OpenFailed (PathError ''open'' ''/h/universal-subnet-runner/config.json'')"
    by (simp_all add: read_only_history_def no_std_faults_def)
  have len: "length two_records = 2" by (simp add: two_records_def)
  from history_appended [OF nc(1) sh nn(1), of no_faults no_std_faults "Some Running" demo_params
      "''/h/universal-subnet-runner/config.json''"] id(1) ok(1)
  have a: "configs (snd (hist_run demo_lib no_faults no_std_faults (Some Running) demo_params
       ''/h/universal-subnet-runner/config.json'' ''/h/universal-subnet-runner/avalanchego'' ''/w'' ?st))
     = two_records @ [\<lparr>NetworkID = 1337, PortShifting = 20\<rparr>]
   \<and> history (snd (hist_run demo_lib no_faults no_std_faults (Some Running) demo_params
       ''/h/universal-subnet-runner/config.json'' ''/h/universal-subnet-runner/avalanchego'' ''/w'' ?st))
     = Stored (two_records @ [\<lparr>NetworkID = 1337, PortShifting = 20\<rparr>])"
    by (simp add: len)
  from history_appended [OF nc(2) sh nn(2), of no_faults no_std_faults "Some Running" demo_params
      "''/h/universal-subnet-runner/config.json''"] id(2)
  have b: "fst (hist_run no_network_id no_faults no_std_faults (Some Running) demo_params
       ''/h/universal-subnet-runner/config.json'' ''/h/universal-subnet-runner/avalanchego'' ''/w'' ?st)
     = Returned (Some (LibError ''network stopped''))"
    by simp
  from history_appended [OF nc(1) sh nn(1), of no_faults read_only_history "Some Running" demo_params
      "''/h/universal-subnet-runner/config.json''"] id(1) ok(2)
  have c: "fst (hist_run demo_lib no_faults read_only_history (Some Running) demo_params
       ''/h/universal-subnet-runner/config.json'' ''/h/universal-subnet-runner/avalanchego'' ''/w'' ?st)
     = Returned (Some (PathError ''open'' ''/h/universal-subnet-runner/config.json''))"
    by simp
  show ?thesis using a b c by blast
qed

text \<open>
  C8 as stated ("after every successful bootstrap ... the history file is rewritten")
  fails when a later step fails. With a history file that cannot be opened for writing
  the network is started, the record is appended in memory, \<open>run\<close> returns the error and
  the file still holds the two old records only. With a library that gives no network
  ID the network is started and no record is appended at all.
\<close>

theorem history_not_rewritten_when_write_fails:
  "fst (hist_main demo_lib no_faults read_only_history (Some Running) demo_params ''/h'' 1700000000
        demo_fs (Stored two_records) 0) = Exit 1
   \<and> length (launched (snd (hist_main demo_lib no_faults read_only_history (Some Running) demo_params
        ''/h'' 1700000000 demo_fs (Stored two_records) 0))) = 1
   \<and> configs (snd (hist_main demo_lib no_faults read_only_history (Some Running) demo_params ''/h''
        1700000000 demo_fs (Stored two_records) 0)) = two_records @ [\<lparr>NetworkID = 1337, PortShifting = 20\<rparr>]
   \<and> history (snd (hist_main demo_lib no_faults read_only_history (Some Running) demo_params ''/h''
        1700000000 demo_fs (Stored two_records) 0)) = Stored two_records
   \<and> fst (hist_main no_network_id no_faults no_std_faults (Some Running) demo_params ''/h'' 1700000000
        demo_fs (Stored two_records) 0) = Exit 1
   \<and> length (launched (snd (hist_main no_network_id no_faults no_std_faults (Some Running) demo_params
        ''/h'' 1700000000 demo_fs (Stored two_records) 0))) = 1
   \<and> configs (snd (hist_main no_network_id no_faults no_std_faults (Some Running) demo_params ''/h''
        1700000000 demo_fs (Stored two_records) 0)) = two_records
   \<and> history (snd (hist_main no_network_id no_faults no_std_faults (Some Running) demo_params ''/h''
        1700000000 demo_fs (Stored two_records) 0)) = Stored two_records"
  by (simp add: hist_main_def hist_run_def hist_record_def deferred_Stop_def call_Stop_def finish_def say_def
      initial_def shift_node_def defaultShift_def Let_def
      no_network_id_def demo_lib_def demo_node_config_def read_only_history_def no_std_faults_def two_records_def)

section \<open>The health wait and the signal: properties\<close>

text \<open>
  C2, as the code has it. \<open>main\<close> passes \<open>context.Background()\<close> to \<open>run\<close> and on to \<open>await\<close>,
  and nothing cancels it when a signal comes: the signal waits in the channel until
  \<open>shutdownOnSignal\<close> reads it at the end of \<open>run\<close>. So a run with a signal during any
  phase is the run with the signal at the end; a health wait ends when the cluster is
  healthy or its check fails, or else when the timeout is over, whatever signals came.
  \<open>await\<close> itself honours the context it is given: on a context cancelled at time \<open>c\<close> it
  would return by then.
\<close>

theorem health_wait_ignores_signal:
  "multi_main L fl sf (Some p) P amountOfSubnets home unixTime fs h t
     = multi_main L fl sf (Some Running) P amountOfSubnets home unixTime fs h t
   \<and> (\<exists>err st'. multi_await Background L k healthyTimeout st = Some (err, st')
        \<and> now st' = (case cluster L k of
                       HealthyAt x \<Rightarrow> min (max x (now st)) (now st + healthyTimeout)
                     | FailsAt x e \<Rightarrow> min (max x (now st)) (now st + healthyTimeout)
                     | NeverHealthy \<Rightarrow> now st + healthyTimeout)
        \<and> (err = None) = (\<exists>x. cluster L k = HealthyAt x \<and> max x (now st) < now st + healthyTimeout))
   \<and> (\<exists>err st'. multi_await (WithCancel Background (Some c)) L k healthyTimeout st = Some (err, st')
        \<and> now st' \<le> max c (now st))"
proof (intro conjI)
  show "multi_main L fl sf (Some p) P amountOfSubnets home unixTime fs h t
     = multi_main L fl sf (Some Running) P amountOfSubnets home unixTime fs h t"
    unfolding multi_main_def multi_run_def multi_provision_def multi_shutdownOnSignal_def option.case ..
next
  show "\<exists>err st'. multi_await Background L k healthyTimeout st = Some (err, st')
        \<and> now st' = (case cluster L k of
                       HealthyAt x \<Rightarrow> min (max x (now st)) (now st + healthyTimeout)
                     | FailsAt x e \<Rightarrow> min (max x (now st)) (now st + healthyTimeout)
                     | NeverHealthy \<Rightarrow> now st + healthyTimeout)
        \<and> (err = None) = (\<exists>x. cluster L k = HealthyAt x \<and> max x (now st) < now st + healthyTimeout)"
    by (cases "cluster L k")
      (auto simp: multi_await_def Healthy_def WithTimeout_def say_def Let_def healthyTimeout_def)
next
  show "\<exists>err st'. multi_await (WithCancel Background (Some c)) L k healthyTimeout st = Some (err, st')
        \<and> now st' \<le> max c (now st)"
    by (cases "cluster L k")
      (auto simp: multi_await_def Healthy_def WithTimeout_def say_def Let_def healthyTimeout_def)
qed

text \<open>
  C2 as stated fails: with a cluster that never gets healthy and a signal during the
  first health wait, the wait lasts the full two minutes and ends with the deadline's
  error, as it does in the run with no signal at all.
\<close>

theorem signal_does_not_interrupt_health_wait:
  "fst (multi_main never_healthy no_faults no_std_faults (Some Health1) demo_params 2 ''/h'' 1700000000 demo_fs Absent 0)
     = Exit 1
   \<and> now (snd (multi_main never_healthy no_faults no_std_faults (Some Health1) demo_params 2 ''/h'' 1700000000
        demo_fs Absent 0)) = 0 + healthyTimeout
   \<and> logs (snd (multi_main never_healthy no_faults no_std_faults (Some Health1) demo_params 2 ''/h'' 1700000000
        demo_fs Absent 0))
     = [Log Info ''waiting for all nodes to report healthy...'' [],
        Log Fatal ''fatal error'' [ErrorField DeadlineExceeded]]
   \<and> multi_main never_healthy no_faults no_std_faults (Some Health1) demo_params 2 ''/h'' 1700000000 demo_fs Absent 0
     = multi_main never_healthy no_faults no_std_faults None demo_params 2 ''/h'' 1700000000 demo_fs Absent 0"
  by (simp add: model_defs demo_defs upt_rec)

end
